theory Spec2Isabelle
  imports Complex_Main
begin

section \<open>Exceptions of collaborators\<close>

text \<open>
  A Python exception object raised by code outside the modelled functions (the schema
  library, numpy, the backend runtimes, pathlib, the yaml reader): its class name, what
  \<^verbatim>\<open>str(e)\<close> gives, and what \<^verbatim>\<open>traceback.format_tb(e.__traceback__)\<close>
  gives. Only subclasses of \<^verbatim>\<open>Exception\<close> are values of this type; interpreter
  signals such as \<^verbatim>\<open>KeyboardInterrupt\<close> are outside the model.
\<close>

datatype exn = Exn (exn_class: string) (exn_str: string) (exn_format_tb: "string list")

section \<open>io.py: download_rdf\<close>

text \<open>What the yaml reader returns; \<^verbatim>\<open>isinstance(content, Mapping)\<close> holds of \<open>YMapping\<close> only.\<close>

datatype yaml_value =
    YNull
  | YScalar string
  | YSequence "yaml_value list"
  | YMapping "(string \<times> yaml_value) list"

fun is_mapping :: "yaml_value \<Rightarrow> bool" where
  "is_mapping (YMapping _) = True"
| "is_mapping _ = False"

text \<open>\<^verbatim>\<open>_LocalFile\<close> and \<^verbatim>\<open>_LocalRdf\<close>; paths and URLs are strings.\<close>

record local_file =
  lf_path :: string
  lf_original_root :: string
  lf_original_file_name :: string

record local_rdf =
  lr_content :: yaml_value
  lr_root :: string
  lr_file_name :: string

text \<open>
  The exceptions the modelled functions raise themselves, each with the value its message
  interpolates, and the exceptions of collaborators, which they let through (\<open>Raised\<close>).
  \<open>AssertionError\<close> is a failed \<^verbatim>\<open>assert\<close> statement, \<open>KeyError\<close> a failed
  subscript of a mapping.
\<close>

datatype error =
    ValueError_multiple_rdfs "string list"
  | ValueError_no_rdf_found string
  | TypeError_not_a_mapping yaml_value
  | ValueError_no_onnx_weights
  | ImportError string
  | AssertionError
  | KeyError string
  | Raised exn

fun error_class :: "error \<Rightarrow> string" where
  "error_class (ValueError_multiple_rdfs _) = ''ValueError''"
| "error_class (ValueError_no_rdf_found _) = ''ValueError''"
| "error_class (TypeError_not_a_mapping _) = ''TypeError''"
| "error_class ValueError_no_onnx_weights = ''ValueError''"
| "error_class (ImportError _) = ''ImportError''"
| "error_class AssertionError = ''AssertionError''"
| "error_class (KeyError _) = ''KeyError''"
| "error_class (Raised e) = exn_class e"

text \<open>
  The collaborators of \<^verbatim>\<open>download_rdf\<close>: \<^verbatim>\<open>download\<close>, \<^verbatim>\<open>is_zipfile\<close>,
  \<^verbatim>\<open>ZipFile.namelist\<close>, \<^verbatim>\<open>ZipFile.extractall\<close> (\<open>Some e\<close> when it raises) and
  opening a file and reading it as yaml.
\<close>

record io_env =
  download :: "string \<Rightarrow> exn + local_file"
  is_zipfile :: "string \<Rightarrow> bool"
  namelist :: "string \<Rightarrow> string list"
  extractall :: "string \<Rightarrow> string \<Rightarrow> exn option"
  yaml_load :: "string \<Rightarrow> exn + yaml_value"

definition LEGACY_RDF_NAME :: string where
  "LEGACY_RDF_NAME = ''rdf.yaml''"

definition endswith :: "string \<Rightarrow> string \<Rightarrow> bool" where
  "endswith s suffix =
     (length suffix \<le> length s \<and> drop (length s - length suffix) s = suffix)"

text \<open>\<^verbatim>\<open>local_source.with_suffix(local_source.suffix + ".unzip")\<close>: the path with \<^verbatim>\<open>.unzip\<close> appended.\<close>

definition unzip_path :: "string \<Rightarrow> string" where
  "unzip_path local_source = local_source @ ''.unzip''"

text \<open>\<^verbatim>\<open>out_path / rdf_file_name\<close>: pathlib keeps an absolute right operand as it is.\<close>

definition path_join :: "string \<Rightarrow> string \<Rightarrow> string" where
  "path_join p n = (if n \<noteq> [] \<and> hd n = CHR ''/'' then n else p @ ''/'' @ n)"

text \<open>The \<^verbatim>\<open>if/elif/else\<close> chain over the archive's member names (lines 278 to 288).\<close>

definition select_rdf_file_name :: "string \<Rightarrow> string list \<Rightarrow> error + string" where
  "select_rdf_file_name local_source names =
     (let rdfs = filter (\<lambda>fname. endswith fname ''.bioimageio.yaml'') names in
      if length rdfs > 1 then Inl (ValueError_multiple_rdfs rdfs)
      else if length rdfs = 1 then Inr (rdfs ! 0)
      else if LEGACY_RDF_NAME \<in> set names then Inr LEGACY_RDF_NAME
      else Inl (ValueError_no_rdf_found local_source))"

text \<open>Lines 293 to 299: read the file, refuse content that is not a mapping.\<close>

definition load_rdf_content :: "io_env \<Rightarrow> local_file \<Rightarrow> string \<Rightarrow> error + local_rdf" where
  "load_rdf_content env lf local_source =
     (case yaml_load env local_source of
        Inl e \<Rightarrow> Inl (Raised e)
      | Inr c \<Rightarrow>
          if \<not> is_mapping c then Inl (TypeError_not_a_mapping c)
          else Inr \<lparr>lr_content = c, lr_root = lf_original_root lf,
                    lr_file_name = lf_original_file_name lf\<rparr>)"

definition download_rdf :: "io_env \<Rightarrow> string \<Rightarrow> error + local_rdf" where
  "download_rdf env source =
     (case download env source of
        Inl e \<Rightarrow> Inl (Raised e)
      | Inr lf \<Rightarrow>
          let local_source = lf_path lf in
          if is_zipfile env local_source then
            (let out_path = unzip_path local_source in
             case select_rdf_file_name local_source (namelist env local_source) of
               Inl err \<Rightarrow> Inl err
             | Inr rdf_file_name \<Rightarrow>
                 (case extractall env local_source out_path of
                    Some e \<Rightarrow> Inl (Raised e)
                  | None \<Rightarrow> load_rdf_content env lf (path_join out_path rdf_file_name)))
          else load_rdf_content env lf local_source)"

text \<open>The names of an archive that end in \<^verbatim>\<open>.bioimageio.yaml\<close>.\<close>

definition rdfs_of :: "string list \<Rightarrow> string list" where
  "rdfs_of names = filter (\<lambda>fname. endswith fname ''.bioimageio.yaml'') names"

text \<open>An environment for evaluating \<^verbatim>\<open>download_rdf\<close> on a package with one description file.\<close>

definition example_io_env :: io_env where
  "example_io_env =
     \<lparr>download = (\<lambda>s. Inr \<lparr>lf_path = s, lf_original_root = ''/tmp'', lf_original_file_name = s\<rparr>),
      is_zipfile = (\<lambda>p. endswith p ''.zip''),
      namelist = (\<lambda>p. [''weights.pt'', ''unet.bioimageio.yaml'']),
      extractall = (\<lambda>p out. None),
      yaml_load = (\<lambda>p. if p = ''m.zip.unzip/unet.bioimageio.yaml''
                        then Inr (YMapping [(''type'', YScalar ''model'')])
                        else Inr (YSequence []))\<rparr>"

section \<open>Arrays, tensors and model descriptions\<close>

text \<open>
  A numeric array: its shape and its elements. The modelled code never looks at the
  elements; it hands arrays to its collaborators.
\<close>

datatype ndarray = NDArray (nd_shape: "nat list") (nd_data: "int list")

text \<open>An array tagged with one axis name per dimension (\<^verbatim>\<open>Tensor\<close>, \<^verbatim>\<open>xr.DataArray\<close>).\<close>

datatype tensor = Tensor (t_data: ndarray) (t_dims: "string list")

text \<open>
  The \<^verbatim>\<open>dims\<close> argument as the code passes it: the axes string of a v0.4
  description, or a tuple of axis ids.
\<close>

datatype dims_arg = DimsStr string | DimsSeq "string list"

datatype axis_size =
    FixedSize nat
  | ParameterizedSize nat nat
  | SizeReference string string
  | DataDependentSize

fun is_ParameterizedSize :: "axis_size \<Rightarrow> bool" where
  "is_ParameterizedSize (ParameterizedSize _ _) = True"
| "is_ParameterizedSize _ = False"

record axis =
  ax_id :: string
  ax_size :: axis_size

text \<open>A declared processing step: its name and its parameters.\<close>

datatype proc_descr = ProcDescr (pd_name: string) (pd_kwargs: "(string \<times> string) list")

record v4_input =
  in4_name :: string
  in4_data_type :: string
  in4_axes :: string
  in4_preprocessing :: "proc_descr list"

record v4_output =
  out4_name :: string
  out4_data_type :: string
  out4_axes :: string
  out4_postprocessing :: "proc_descr list"

record v5_input =
  in5_id :: string
  in5_axes :: "axis list"
  in5_test_tensor :: string
  in5_preprocessing :: "proc_descr list"

record v5_output =
  out5_id :: string
  out5_axes :: "axis list"
  out5_test_tensor :: string
  out5_postprocessing :: "proc_descr list"

text \<open>\<^verbatim>\<open>weights.onnx\<close> is \<open>None\<close> or the entry's source.\<close>

record v4_model =
  m4_name :: string
  m4_inputs :: "v4_input list"
  m4_outputs :: "v4_output list"
  m4_test_inputs :: "string list"
  m4_test_outputs :: "string list"
  m4_weights_onnx :: "string option"

record v5_model =
  m5_name :: string
  m5_inputs :: "v5_input list"
  m5_outputs :: "v5_output list"
  m5_weights_onnx :: "string option"

datatype model_descr = V0_4 v4_model | V0_5 v5_model

text \<open>
  A list comprehension whose element expression may raise: the elements are evaluated
  in order and the first exception ends the evaluation.
\<close>

fun comprehension :: "('a \<Rightarrow> exn + 'b) \<Rightarrow> 'a list \<Rightarrow> exn + 'b list" where
  "comprehension f [] = Inr []"
| "comprehension f (x # xs) =
     (case f x of
        Inl e \<Rightarrow> Inl e
      | Inr y \<Rightarrow> (case comprehension f xs of Inl e \<Rightarrow> Inl e | Inr ys \<Rightarrow> Inr (y # ys)))"

text \<open>
  A prediction pipeline as the modelled code uses it: its declared input ids and axes,
  \<^verbatim>\<open>forward\<close>, and what leaving its \<^verbatim>\<open>with\<close> block raises.
\<close>

record pipeline =
  input_ids :: "string list"
  input_axes :: "string list list"
  forward :: "tensor list \<Rightarrow> exn + tensor list"
  pp_exit :: "exn option"

section \<open>prediction.py: predict\<close>

datatype array_like = IsTensor tensor | IsNdarray ndarray

datatype predict_inputs =
    Bare array_like
  | Seq "array_like list"
  | Mapping_of "(string \<times> array_like) list"

text \<open>What iterating over \<^verbatim>\<open>inputs\<close> yields: a sequence's elements, or a mapping's keys.\<close>

datatype zip_item = FromSeq array_like | FromKey string

datatype raw_input = RawArray ndarray | RawKey string

text \<open>
  The collaborators of \<^verbatim>\<open>predict\<close>: \<^verbatim>\<open>Tensor.from_numpy\<close> and the iteration
  over a bare tensor or array.
\<close>

record predict_env =
  from_numpy :: "raw_input \<Rightarrow> string list \<Rightarrow> exn + tensor"
  iter_bare :: "array_like \<Rightarrow> exn + array_like list"

text \<open>
  \<^verbatim>\<open>[inputs.get(str(tid), inputs[tid]) for tid in input_ids]\<close>: the default
  \<^verbatim>\<open>inputs[tid]\<close> is evaluated for every id and raises KeyError for an absent one.
\<close>

fun lookup_all :: "(string \<times> 'a) list \<Rightarrow> string list \<Rightarrow> error + 'a list" where
  "lookup_all kvs [] = Inr []"
| "lookup_all kvs (tid # tids) =
     (case map_of kvs tid of
        None \<Rightarrow> Inl (KeyError tid)
      | Some v \<Rightarrow> (case lookup_all kvs tids of Inl e \<Rightarrow> Inl e | Inr vs \<Rightarrow> Inr (v # vs)))"

text \<open>Lines 102 to 112: \<^verbatim>\<open>inputs_seq\<close> and the assertion on its length.\<close>

definition inputs_seq_of :: "pipeline \<Rightarrow> predict_inputs \<Rightarrow> error + array_like list" where
  "inputs_seq_of prediction_pipeline inputs =
     (case inputs of
        Mapping_of kvs \<Rightarrow> lookup_all kvs (input_ids prediction_pipeline)
      | Bare x \<Rightarrow>
          (let inputs_seq = [x] in
           if length inputs_seq = length (input_ids prediction_pipeline)
           then Inr inputs_seq else Inl AssertionError)
      | Seq xs \<Rightarrow>
          (let inputs_seq = xs in
           if length inputs_seq = length (input_ids prediction_pipeline)
           then Inr inputs_seq else Inl AssertionError))"

definition iterate_inputs :: "predict_env \<Rightarrow> predict_inputs \<Rightarrow> exn + zip_item list" where
  "iterate_inputs env inputs =
     (case inputs of
        Mapping_of kvs \<Rightarrow> Inr (map (\<lambda>kv. FromKey (fst kv)) kvs)
      | Seq xs \<Rightarrow> Inr (map FromSeq xs)
      | Bare x \<Rightarrow> (case iter_bare env x of Inl e \<Rightarrow> Inl e | Inr ys \<Rightarrow> Inr (map FromSeq ys)))"

fun tag :: "predict_env \<Rightarrow> zip_item \<times> string list \<Rightarrow> exn + tensor" where
  "tag env (FromSeq (IsTensor t), axes) = Inr t"
| "tag env (FromSeq (IsNdarray a), axes) = from_numpy env (RawArray a) axes"
| "tag env (FromKey k, axes) = from_numpy env (RawKey k) axes"

text \<open>Lines 114 to 118: the comprehension zips \<^verbatim>\<open>inputs\<close> itself with the input axes.\<close>

definition tag_and_forward :: "predict_env \<Rightarrow> pipeline \<Rightarrow> predict_inputs \<Rightarrow> error + tensor list" where
  "tag_and_forward env prediction_pipeline inputs =
     (case iterate_inputs env inputs of
        Inl e \<Rightarrow> Inl (Raised e)
      | Inr items \<Rightarrow>
          (case comprehension (tag env) (zip items (input_axes prediction_pipeline)) of
             Inl e \<Rightarrow> Inl (Raised e)
           | Inr tagged_data \<Rightarrow>
               (case forward prediction_pipeline tagged_data of
                  Inl e \<Rightarrow> Inl (Raised e)
                | Inr results \<Rightarrow> Inr results)))"

definition predict :: "predict_env \<Rightarrow> pipeline \<Rightarrow> predict_inputs \<Rightarrow> error + tensor list" where
  "predict env prediction_pipeline inputs =
     (case inputs_seq_of prediction_pipeline inputs of
        Inl e \<Rightarrow> Inl e
      | Inr inputs_seq \<Rightarrow> tag_and_forward env prediction_pipeline inputs)"

section \<open>model_adapters/_onnx_model_adapter.py\<close>

text \<open>
  The runtime module is \<open>None\<close> when its import failed. A session is what
  \<^verbatim>\<open>rt.InferenceSession(str(source))\<close> returns, with the names of its inputs.
\<close>

datatype onnx_session = Session (sess_source: string) (sess_input_names: "string list")

record onnx_runtime =
  InferenceSession :: "string \<Rightarrow> exn + onnx_session"

record onnx_adapter =
  internal_output_axes :: "string list list"
  session :: onnx_session
  oa_input_names :: "string list"

text \<open>
  The warnings the adapter emits with \<^verbatim>\<open>warnings.warn\<close>, each with the value its
  message interpolates. The warning filter is the default one: a warning is recorded and
  execution goes on.
\<close>

datatype warning = DevicesIgnored "string list" | CannotUnload

definition output_axes_of :: "model_descr \<Rightarrow> string list list" where
  "output_axes_of model_description =
     (case model_description of
        V0_4 m \<Rightarrow> map (\<lambda>out. map (\<lambda>c. [c]) (out4_axes out)) (m4_outputs m)
      | V0_5 m \<Rightarrow> map (\<lambda>out. map ax_id (out5_axes out)) (m5_outputs m))"

definition weights_onnx :: "model_descr \<Rightarrow> string option" where
  "weights_onnx model_description =
     (case model_description of V0_4 m \<Rightarrow> m4_weights_onnx m | V0_5 m \<Rightarrow> m5_weights_onnx m)"

definition ONNXModelAdapter_init ::
  "onnx_runtime option \<Rightarrow> model_descr \<Rightarrow> string list option \<Rightarrow> error + onnx_adapter \<times> warning list" where
  "ONNXModelAdapter_init rt model_description devices =
     (case rt of
        None \<Rightarrow> Inl (ImportError ''onnxruntime'')
      | Some r \<Rightarrow>
          (let axes = output_axes_of model_description in
           case weights_onnx model_description of
             None \<Rightarrow> Inl ValueError_no_onnx_weights
           | Some source \<Rightarrow>
               (case InferenceSession r source of
                  Inl e \<Rightarrow> Inl (Raised e)
                | Inr s \<Rightarrow>
                    Inr (\<lparr>internal_output_axes = axes, session = s,
                          oa_input_names = sess_input_names s\<rparr>,
                         (case devices of None \<Rightarrow> [] | Some d \<Rightarrow> [DevicesIgnored d])))))"

definition ONNXModelAdapter_unload :: "onnx_adapter \<Rightarrow> error + onnx_adapter \<times> warning list" where
  "ONNXModelAdapter_unload self = Inr (self, [CannotUnload])"

section \<open>proc_setup.py\<close>

text \<open>
  Modelled from the spec: the measure types of \<^verbatim>\<open>stat_measures.py\<close>, which is not
  among the sources. A measure is computed per sample or over a dataset and carries the
  tensor id it targets, the axes it reduces over and the kind of statistic; two measures
  with the same fields are the same key.
\<close>

datatype stat_kind = Mean | Std | Quantile rat | Min | Max

datatype measure_scope = SampleMeasure | DatasetMeasure

datatype measure =
  Measure (m_scope: measure_scope) (m_target: string) (m_axes: "string list") (m_kind: stat_kind)

datatype measure_value = Scalar rat | PerAxis "rat list"

text \<open>A sample: tensor ids with their tensors. A dictionary of statistics, in insertion order.\<close>

type_synonym sample = "(string \<times> tensor) list"

type_synonym stats = "(measure \<times> measure_value) list"

text \<open>
  A \<^verbatim>\<open>StatsCalculator\<close> object (\<^verbatim>\<open>stat_calculators.py\<close> is not among the
  sources): the two arguments it was constructed with and the samples it was fed with
  \<^verbatim>\<open>update\<close>, in order. What \<^verbatim>\<open>finalize\<close> computes from them is a parameter.
\<close>

record stats_calculator =
  sc_measures :: "measure set"
  sc_initial_dataset_measures :: "stats option"
  sc_updates :: "sample list"

definition StatsCalculator :: "measure set \<Rightarrow> stats option \<Rightarrow> stats_calculator" where
  "StatsCalculator required initial_dataset_measures =
     \<lparr>sc_measures = required, sc_initial_dataset_measures = initial_dataset_measures,
      sc_updates = []\<rparr>"

definition sc_update :: "stats_calculator \<Rightarrow> sample \<Rightarrow> stats_calculator" where
  "sc_update calc s = calc\<lparr>sc_updates := sc_updates calc @ [s]\<rparr>"

text \<open>
  The operators of \<^verbatim>\<open>proc_ops.py\<close> that \<^verbatim>\<open>proc_setup.py\<close> constructs itself, and
  \<open>Step\<close> for an operator built from a declared step of a tensor.
\<close>

datatype processing =
    EnsureDtype (ed_input: string) (ed_output: string) (ed_dtype: string)
  | UpdateStats stats_calculator bool
  | AddKnownDatasetStats stats
  | Step string proc_descr

text \<open>
  The collaborators of \<^verbatim>\<open>proc_setup.py\<close>: the four converters from a declared step
  to an operator, an operator's \<^verbatim>\<open>required_measures\<close>, and \<^verbatim>\<open>StatsCalculator.finalize\<close>.
\<close>

record proc_ops =
  preproc_v4_to_processing :: "v4_input \<Rightarrow> proc_descr \<Rightarrow> processing"
  postproc_v4_to_processing :: "v4_output \<Rightarrow> proc_descr \<Rightarrow> processing"
  preproc_v5_to_processing :: "v5_input \<Rightarrow> proc_descr \<Rightarrow> processing"
  postproc_v5_to_processing :: "v5_output \<Rightarrow> proc_descr \<Rightarrow> processing"
  required_measures :: "processing \<Rightarrow> measure set"
  finalize :: "stats_calculator \<Rightarrow> exn + stats"

text \<open>The inner loop: \<^verbatim>\<open>for proc_d in steps: procs.append(convert(t_descr, proc_d))\<close>.\<close>

fun append_procs :: "(proc_descr \<Rightarrow> processing) \<Rightarrow> processing list \<Rightarrow> proc_descr list \<Rightarrow> processing list" where
  "append_procs convert procs [] = procs"
| "append_procs convert procs (proc_d # ds) = append_procs convert (procs @ [convert proc_d]) ds"

text \<open>\<^verbatim>\<open>{m for proc in procs for m in proc.required_measures}\<close>\<close>

definition measures_of :: "proc_ops \<Rightarrow> processing list \<Rightarrow> measure set" where
  "measures_of ops procs = \<Union> (required_measures ops ` set procs)"

fun v4_preprocs_loop :: "proc_ops \<Rightarrow> processing list \<Rightarrow> v4_input list \<Rightarrow> processing list" where
  "v4_preprocs_loop ops procs [] = procs"
| "v4_preprocs_loop ops procs (t_descr # ts) =
     (let member_id = in4_name t_descr;
          procs1 = procs @ [EnsureDtype member_id member_id (in4_data_type t_descr)]
      in v4_preprocs_loop ops
           (append_procs (preproc_v4_to_processing ops t_descr) procs1 (in4_preprocessing t_descr)) ts)"

definition prepare_v4_preprocs :: "proc_ops \<Rightarrow> v4_input list \<Rightarrow> processing list \<times> measure set" where
  "prepare_v4_preprocs ops tensor_descrs =
     (let procs = v4_preprocs_loop ops [] tensor_descrs in (procs, measures_of ops procs))"

fun v4_postprocs_loop :: "proc_ops \<Rightarrow> processing list \<Rightarrow> v4_output list \<Rightarrow> processing list" where
  "v4_postprocs_loop ops procs [] = procs"
| "v4_postprocs_loop ops procs (t_descr # ts) =
     (let member_id = out4_name t_descr;
          procs1 = procs @ [EnsureDtype member_id member_id (out4_data_type t_descr)]
      in v4_postprocs_loop ops
           (append_procs (postproc_v4_to_processing ops t_descr) procs1 (out4_postprocessing t_descr)) ts)"

definition prepare_v4_postprocs :: "proc_ops \<Rightarrow> v4_output list \<Rightarrow> processing list \<times> measure set" where
  "prepare_v4_postprocs ops tensor_descrs =
     (let procs = v4_postprocs_loop ops [] tensor_descrs in (procs, measures_of ops procs))"

fun v5_preprocs_loop :: "proc_ops \<Rightarrow> processing list \<Rightarrow> v5_input list \<Rightarrow> processing list" where
  "v5_preprocs_loop ops procs [] = procs"
| "v5_preprocs_loop ops procs (t_descr # ts) =
     v5_preprocs_loop ops
       (append_procs (preproc_v5_to_processing ops t_descr) procs (in5_preprocessing t_descr)) ts"

definition prepare_v5_preprocs :: "proc_ops \<Rightarrow> v5_input list \<Rightarrow> processing list \<times> measure set" where
  "prepare_v5_preprocs ops tensor_descrs =
     (let procs = v5_preprocs_loop ops [] tensor_descrs in (procs, measures_of ops procs))"

fun v5_postprocs_loop :: "proc_ops \<Rightarrow> processing list \<Rightarrow> v5_output list \<Rightarrow> processing list" where
  "v5_postprocs_loop ops procs [] = procs"
| "v5_postprocs_loop ops procs (t_descr # ts) =
     v5_postprocs_loop ops
       (append_procs (postproc_v5_to_processing ops t_descr) procs (out5_postprocessing t_descr)) ts"

definition prepare_v5_postprocs :: "proc_ops \<Rightarrow> v5_output list \<Rightarrow> processing list \<times> measure set" where
  "prepare_v5_postprocs ops tensor_descrs =
     (let procs = v5_postprocs_loop ops [] tensor_descrs in (procs, measures_of ops procs))"

text \<open>\<^verbatim>\<open>_SetupProcessing\<close>\<close>

record setup_processing =
  sp_pre :: "processing list"
  sp_post :: "processing list"
  sp_pre_measures :: "measure set"
  sp_post_measures :: "measure set"

definition prepare_setup_pre_and_postprocessing :: "proc_ops \<Rightarrow> model_descr \<Rightarrow> setup_processing" where
  "prepare_setup_pre_and_postprocessing ops model =
     (case model of
        V0_4 m \<Rightarrow>
          (case prepare_v4_preprocs ops (m4_inputs m) of (pre, pre_measures) \<Rightarrow>
           case prepare_v4_postprocs ops (m4_outputs m) of (post, post_measures) \<Rightarrow>
             \<lparr>sp_pre = pre, sp_post = post, sp_pre_measures = pre_measures,
              sp_post_measures = post_measures\<rparr>)
      | V0_5 m \<Rightarrow>
          (case prepare_v5_preprocs ops (m5_inputs m) of (pre, pre_measures) \<Rightarrow>
           case prepare_v5_postprocs ops (m5_outputs m) of (post, post_measures) \<Rightarrow>
             \<lparr>sp_pre = pre, sp_post = post, sp_pre_measures = pre_measures,
              sp_post_measures = post_measures\<rparr>))"

text \<open>
  Lines 72 to 76: the required measures for which the caller fixed no value
  (\<^verbatim>\<open>fixed_dataset_stats is None or m not in fixed_dataset_stats\<close>).
\<close>

definition missing_dataset_stats :: "measure set \<Rightarrow> measure set \<Rightarrow> stats option \<Rightarrow> measure set" where
  "missing_dataset_stats prep_meas post_meas fixed_dataset_stats =
     Set.filter (\<lambda>m. case fixed_dataset_stats of None \<Rightarrow> True | Some f \<Rightarrow> map_of f m = None)
       (prep_meas \<union> post_meas)"

text \<open>Lines 78 to 80: the calculator of the initial pass, after it was fed every sample.\<close>

definition initial_stats_calc :: "measure set \<Rightarrow> sample list \<Rightarrow> stats_calculator" where
  "initial_stats_calc missing dataset_for_initial_statistics =
     foldl sc_update (StatsCalculator missing None) dataset_for_initial_statistics"

text \<open>Lines 77 to 84: \<^verbatim>\<open>initial_stats\<close>, or the exception of \<^verbatim>\<open>finalize\<close>.\<close>

definition initial_stats_of :: "proc_ops \<Rightarrow> measure set \<Rightarrow> sample list \<Rightarrow> exn + stats" where
  "initial_stats_of ops missing dataset_for_initial_statistics =
     (if missing \<noteq> {} then finalize ops (initial_stats_calc missing dataset_for_initial_statistics)
      else Inr [])"

text \<open>\<^verbatim>\<open>xs.insert(0, x)\<close>\<close>

definition insert0 :: "'a \<Rightarrow> 'a list \<Rightarrow> 'a list" where
  "insert0 x xs = x # xs"

text \<open>The truth value of an optional dictionary: neither \<^verbatim>\<open>None\<close> nor empty.\<close>

fun truthy :: "stats option \<Rightarrow> bool" where
  "truthy None = False"
| "truthy (Some f) = (f \<noteq> [])"

definition setup_pre_and_postprocessing ::
  "proc_ops \<Rightarrow> model_descr \<Rightarrow> sample list \<Rightarrow> bool \<Rightarrow> stats option \<Rightarrow>
   error + processing list \<times> processing list" where
  "setup_pre_and_postprocessing ops model dataset_for_initial_statistics
       keep_updating_initial_dataset_stats fixed_dataset_stats =
     (let s = prepare_setup_pre_and_postprocessing ops model;
          prep = sp_pre s; post = sp_post s;
          prep_meas = sp_pre_measures s; post_meas = sp_post_measures s;
          missing = missing_dataset_stats prep_meas post_meas fixed_dataset_stats
      in case initial_stats_of ops missing dataset_for_initial_statistics of
           Inl e \<Rightarrow> Inl (Raised e)
         | Inr initial_stats \<Rightarrow>
             (let prep1 = insert0 (UpdateStats (StatsCalculator prep_meas (Some initial_stats))
                                     keep_updating_initial_dataset_stats) prep;
                  post1 = (if post_meas \<noteq> {}
                           then insert0 (UpdateStats (StatsCalculator post_meas (Some initial_stats))
                                           keep_updating_initial_dataset_stats) post
                           else post)
              in if truthy fixed_dataset_stats
                 then Inr (insert0 (AddKnownDatasetStats (the fixed_dataset_stats)) prep1,
                           insert0 (AddKnownDatasetStats (the fixed_dataset_stats)) post1)
                 else Inr (prep1, post1)))"

section \<open>_resource_tests.py\<close>

text \<open>
  The validation summary of the schema library, as far as the tests write to it:
  \<^verbatim>\<open>ErrorEntry\<close>, \<^verbatim>\<open>ValidationDetail\<close>, \<^verbatim>\<open>InstalledPackage\<close> and
  \<^verbatim>\<open>ValidationSummary\<close>.
\<close>

record error_entry =
  ee_loc :: "string list"
  ee_msg :: string
  ee_type :: string
  ee_traceback :: "string list"

record validation_detail =
  vd_name :: string
  vd_status :: string
  vd_errors :: "error_entry list"

record installed_package =
  ip_name :: string
  ip_version :: string

record validation_summary =
  vs_details :: "validation_detail list"
  vs_env :: "installed_package list"

text \<open>\<^verbatim>\<open>add_detail\<close> appends the detail to the summary's details.\<close>

definition add_detail :: "validation_summary \<Rightarrow> validation_detail \<Rightarrow> validation_summary" where
  "add_detail summary detail = summary\<lparr>vs_details := vs_details summary @ [detail]\<rparr>"

text \<open>
  A resource description: its type, its format version, whether it is a model
  description (of v0.4 or v0.5), and its validation summary.
\<close>

datatype descr_body = ModelDescr model_descr | OtherDescr

record resource_descr =
  rd_type :: string
  rd_format_version :: string
  rd_body :: descr_body
  rd_validation_summary :: validation_summary

datatype test_source =
    SourceDescr resource_descr
  | SourceContent yaml_value
  | SourceFile string

text \<open>
  What \<^verbatim>\<open>np.testing.assert_array_almost_equal\<close> does: it returns, raises
  AssertionError (with what \<^verbatim>\<open>str(e)\<close> gives), or raises another exception.
\<close>

datatype cmp_outcome = CmpPass | CmpAssertionError string | CmpRaised exn

text \<open>
  The collaborators of the tests. \<open>test_case\<close> stands for the body of
  \<^verbatim>\<open>generate_test_cases\<close>, which the source file does not have: for a parameter
  value \<open>n\<close> it gives the inputs and the expected output shapes. \<open>str_shapes\<close> and
  \<open>str_shape\<close> are Python's formatting of the expected shapes and of one shape.
\<close>

record test_env =
  bioimageio_core_version :: string
  dump_description :: "resource_descr \<Rightarrow> exn + yaml_value"
  build_description :: "yaml_value \<Rightarrow> string \<Rightarrow> exn + resource_descr"
  load_description :: "string \<Rightarrow> string \<Rightarrow> exn + resource_descr"
  load_array :: "string \<Rightarrow> exn + ndarray"
  download_path :: "string \<Rightarrow> exn + string"
  DataArray :: "ndarray \<Rightarrow> dims_arg \<Rightarrow> exn + tensor"
  create_prediction_pipeline :: "model_descr \<Rightarrow> string list option \<Rightarrow> string option \<Rightarrow> exn + pipeline"
  assert_array_almost_equal :: "tensor \<Rightarrow> tensor \<Rightarrow> int \<Rightarrow> cmp_outcome"
  test_case :: "v5_model \<Rightarrow> tensor list \<Rightarrow> nat \<Rightarrow> exn + tensor list \<times> nat list list"
  str_shapes :: "nat list list \<Rightarrow> string"
  str_shape :: "nat list \<Rightarrow> string"

text \<open>The decimal digits of a natural number, as an f-string prints it.\<close>

definition digit_char :: "nat \<Rightarrow> char" where
  "digit_char d = ''0123456789'' ! d"

fun str_nat :: "nat \<Rightarrow> string" where
  "str_nat n = (if n < 10 then [digit_char n] else str_nat (n div 10) @ [digit_char (n mod 10)])"

text \<open>\<^verbatim>\<open>(error or "")\<close>, and the truth value of \<^verbatim>\<open>error\<close>.\<close>

fun or_empty :: "string option \<Rightarrow> string" where
  "or_empty None = []"
| "or_empty (Some s) = s"

fun is_truthy :: "string option \<Rightarrow> bool" where
  "is_truthy None = False"
| "is_truthy (Some s) = (s \<noteq> [])"

text \<open>Lines 99 to 110: the test inputs and the expected outputs, as tagged arrays.\<close>

definition load_v4_tensor :: "test_env \<Rightarrow> string \<times> string \<Rightarrow> exn + tensor" where
  "load_v4_tensor env p =
     (case load_array env (fst p) of
        Inl e \<Rightarrow> Inl e
      | Inr a \<Rightarrow> DataArray env a (DimsStr (snd p)))"

definition load_v5_tensor :: "test_env \<Rightarrow> string \<times> axis list \<Rightarrow> exn + tensor" where
  "load_v5_tensor env p =
     (case download_path env (fst p) of
        Inl e \<Rightarrow> Inl e
      | Inr path \<Rightarrow>
          (case load_array env path of
             Inl e \<Rightarrow> Inl e
           | Inr a \<Rightarrow> DataArray env a (DimsSeq (map ax_id (snd p)))))"

definition load_test_inputs :: "test_env \<Rightarrow> model_descr \<Rightarrow> exn + tensor list" where
  "load_test_inputs env model =
     (case model of
        V0_4 m \<Rightarrow> comprehension (load_v4_tensor env)
                   (map (\<lambda>(src, d). (src, in4_axes d)) (zip (m4_test_inputs m) (m4_inputs m)))
      | V0_5 m \<Rightarrow> comprehension (load_v5_tensor env)
                   (map (\<lambda>d. (in5_test_tensor d, in5_axes d)) (m5_inputs m)))"

definition load_expected :: "test_env \<Rightarrow> model_descr \<Rightarrow> exn + tensor list" where
  "load_expected env model =
     (case model of
        V0_4 m \<Rightarrow> comprehension (load_v4_tensor env)
                   (map (\<lambda>(src, d). (src, out4_axes d)) (zip (m4_test_outputs m) (m4_outputs m)))
      | V0_5 m \<Rightarrow> comprehension (load_v5_tensor env)
                   (map (\<lambda>d. (out5_test_tensor d, out5_axes d)) (m5_outputs m)))"

definition load_test_tensors :: "test_env \<Rightarrow> model_descr \<Rightarrow> exn + tensor list \<times> tensor list" where
  "load_test_tensors env model =
     (case load_test_inputs env model of
        Inl e \<Rightarrow> Inl e
      | Inr inputs \<Rightarrow>
          (case load_expected env model of
             Inl e \<Rightarrow> Inl e
           | Inr expected \<Rightarrow> Inr (inputs, expected)))"

text \<open>
  Leaving the \<^verbatim>\<open>with\<close> block: an exception of \<^verbatim>\<open>__exit__\<close> replaces the outcome
  of the block.
\<close>

definition leave :: "pipeline \<Rightarrow> exn + 'a \<Rightarrow> exn + 'a" where
  "leave prediction_pipeline outcome =
     (case pp_exit prediction_pipeline of Some e \<Rightarrow> Inl e | None \<Rightarrow> outcome)"

text \<open>Lines 122 to 126: the comparison of each result with its expected output.\<close>

fun compare_outputs :: "test_env \<Rightarrow> int \<Rightarrow> string option \<Rightarrow> (tensor \<times> tensor) list \<Rightarrow> exn + string option" where
  "compare_outputs env decimal error [] = Inr error"
| "compare_outputs env decimal error ((res, expd) # rest) =
     (case assert_array_almost_equal env res expd decimal of
        CmpPass \<Rightarrow> compare_outputs env decimal error rest
      | CmpAssertionError s \<Rightarrow>
          compare_outputs env decimal
            (Some (or_empty error @ ''Output and expected output disagree:'' @ [CHR 0x0A] @ '' '' @ s)) rest
      | CmpRaised e \<Rightarrow> Inl e)"

definition count_mismatch_msg :: "nat \<Rightarrow> nat \<Rightarrow> string" where
  "count_mismatch_msg n_expected n_results =
     ''Expected '' @ str_nat n_expected @ '' outputs, but got '' @ str_nat n_results"

text \<open>
  The \<^verbatim>\<open>try\<close> block of \<^verbatim>\<open>_test_model_inference\<close> (lines 98 to 126): \<open>Inl e\<close> when
  an exception reaches the \<^verbatim>\<open>except\<close> clause, else the value of \<^verbatim>\<open>error\<close>.
\<close>

definition inference_try_block ::
  "test_env \<Rightarrow> model_descr \<Rightarrow> string option \<Rightarrow> string list option \<Rightarrow> int \<Rightarrow> exn + string option" where
  "inference_try_block env model weight_format devices decimal =
     (let error = None in
      case load_test_tensors env model of
        Inl e \<Rightarrow> Inl e
      | Inr (inputs, expected) \<Rightarrow>
          (case (case create_prediction_pipeline env model devices weight_format of
                   Inl e \<Rightarrow> Inl e
                 | Inr prediction_pipeline \<Rightarrow>
                     leave prediction_pipeline (forward prediction_pipeline inputs)) of
             Inl e \<Rightarrow> Inl e
           | Inr results \<Rightarrow>
               if length results \<noteq> length expected
               then Inr (Some (or_empty error @ count_mismatch_msg (length expected) (length results)))
               else compare_outputs env decimal error (zip results expected)))"

text \<open>Lines 127 to 129: \<^verbatim>\<open>error\<close> and \<^verbatim>\<open>tb\<close> after the \<^verbatim>\<open>try\<close> statement.\<close>

fun error_and_tb :: "exn + string option \<Rightarrow> string option \<times> string list" where
  "error_and_tb (Inl e) = (Some (exn_str e), exn_format_tb e)"
| "error_and_tb (Inr error) = (error, [])"

text \<open>Lines 131 to 148: the detail that is added.\<close>

definition reproduce_detail :: "string option \<Rightarrow> string option \<times> string list \<Rightarrow> validation_detail" where
  "reproduce_detail weight_format et =
     \<lparr>vd_name = ''Reproduce test outputs from test inputs'',
      vd_status = (if fst et = None then ''passed'' else ''failed''),
      vd_errors =
        (if fst et = None then []
         else [\<lparr>ee_loc = (case weight_format of None \<Rightarrow> [''weights''] | Some w \<Rightarrow> [''weights'', w]),
                ee_msg = the (fst et),
                ee_type = ''bioimageio.core'',
                ee_traceback = snd et\<rparr>])\<rparr>"

definition test_model_inference ::
  "test_env \<Rightarrow> model_descr \<Rightarrow> string option \<Rightarrow> string list option \<Rightarrow> int \<Rightarrow>
   validation_summary \<Rightarrow> validation_summary" where
  "test_model_inference env model weight_format devices decimal summary =
     add_detail summary
       (reproduce_detail weight_format
          (error_and_tb (inference_try_block env model weight_format devices decimal)))"

text \<open>Line 155: some axis of some input has a parameterized size.\<close>

definition has_parameterized_input :: "v5_model \<Rightarrow> bool" where
  "has_parameterized_input m =
     list_ex (\<lambda>ipt. list_ex (\<lambda>a. is_ParameterizedSize (ax_size a)) (in5_axes ipt)) (m5_inputs m)"

text \<open>Lines 181 to 183: the shape of each result against its expected shape.\<close>

fun check_shapes ::
  "test_env \<Rightarrow> nat \<Rightarrow> nat list list \<Rightarrow> string option \<Rightarrow> (tensor \<times> nat list) list \<Rightarrow> string option" where
  "check_shapes env n expected_output_shape error [] = error"
| "check_shapes env n expected_output_shape error ((res, expd) # rest) =
     (if nd_shape (t_data res) \<noteq> expd
      then check_shapes env n expected_output_shape
             (Some (or_empty error @ ''(n='' @ str_nat n @ '') Expected output shape ''
                    @ str_shapes env expected_output_shape @ '', but got ''
                    @ str_shape env (nd_shape (t_data res)) @ [CHR 0x0A])) rest
      else check_shapes env n expected_output_shape error rest)"

text \<open>
  Lines 173 to 186: the loop over the test cases, one case for each parameter value in
  turn. The second component lists the parameter values whose inputs were given to
  \<^verbatim>\<open>forward\<close>.

  Modelled from the spec: the body of \<^verbatim>\<open>generate_test_cases\<close> is missing from the
  source file after \<^verbatim>\<open>for n in [0, 1, 2, 3]:\<close>; the generator yields one case
  \<^verbatim>\<open>(n, inputs, expected output shapes)\<close> for each \<open>n\<close>, built by \<open>test_case\<close>.
\<close>

fun run_cases ::
  "test_env \<Rightarrow> v5_model \<Rightarrow> pipeline \<Rightarrow> tensor list \<Rightarrow> string option \<Rightarrow> nat list \<Rightarrow>
   (exn + string option) \<times> nat list" where
  "run_cases env m prediction_pipeline test_inputs error [] = (Inr error, [])"
| "run_cases env m prediction_pipeline test_inputs error (n # ns) =
     (case test_case env m test_inputs n of
        Inl e \<Rightarrow> (Inl e, [])
      | Inr (inputs, expected_output_shape) \<Rightarrow>
          (case forward prediction_pipeline inputs of
             Inl e \<Rightarrow> (Inl e, [n])
           | Inr results \<Rightarrow>
               (let error1 =
                      (if length results \<noteq> length expected_output_shape
                       then Some (or_empty error
                                  @ count_mismatch_msg (length expected_output_shape) (length results))
                       else check_shapes env n expected_output_shape error
                              (zip results expected_output_shape))
                in if is_truthy error1 then (Inr error1, [n])
                   else (case run_cases env m prediction_pipeline test_inputs error1 ns of
                           (outcome, forwarded) \<Rightarrow> (outcome, n # forwarded)))))"

text \<open>The \<^verbatim>\<open>try\<close> block of \<^verbatim>\<open>_test_model_inference_with_parametrized_inputs\<close>.\<close>

definition parametrized_try_block ::
  "test_env \<Rightarrow> v5_model \<Rightarrow> string option \<Rightarrow> string list option \<Rightarrow> (exn + string option) \<times> nat list" where
  "parametrized_try_block env m weight_format devices =
     (let error = None in
      case load_test_inputs env (V0_5 m) of
        Inl e \<Rightarrow> (Inl e, [])
      | Inr test_inputs \<Rightarrow>
          (case create_prediction_pipeline env (V0_5 m) devices weight_format of
             Inl e \<Rightarrow> (Inl e, [])
           | Inr prediction_pipeline \<Rightarrow>
               (case run_cases env m prediction_pipeline test_inputs error [0, 1, 2, 3] of
                  (outcome, forwarded) \<Rightarrow> (leave prediction_pipeline outcome, forwarded))))"

definition test_model_inference_with_parametrized_inputs ::
  "test_env \<Rightarrow> v5_model \<Rightarrow> string option \<Rightarrow> string list option \<Rightarrow>
   validation_summary \<Rightarrow> validation_summary" where
  "test_model_inference_with_parametrized_inputs env m weight_format devices summary =
     (if \<not> has_parameterized_input m then summary
      else add_detail summary
             (reproduce_detail weight_format
                (error_and_tb (fst (parametrized_try_block env m weight_format devices)))))"

text \<open>Lines 211 to 223.\<close>

definition test_expected_resource_type :: "resource_descr \<Rightarrow> string \<Rightarrow> resource_descr" where
  "test_expected_resource_type rd expected_type =
     (let has_expected_type = (rd_type rd = expected_type) in
      rd\<lparr>rd_validation_summary :=
           add_detail (rd_validation_summary rd)
             \<lparr>vd_name = ''Has expected resource type'',
              vd_status = (if has_expected_type then ''passed'' else ''failed''),
              vd_errors =
                (if has_expected_type then []
                 else [\<lparr>ee_loc = [''type''],
                        ee_msg = ''expected type '' @ expected_type @ '', found '' @ rd_type rd,
                        ee_type = ''type'', ee_traceback = []\<rparr>])\<rparr>\<rparr>)"

text \<open>
  Lines 62 to 75 of \<^verbatim>\<open>load_description_and_test\<close>: the description that is tested.
  These calls stand outside every \<^verbatim>\<open>try\<close> statement. (The warning of line 67 is not
  modelled.)
\<close>

definition resolve_description :: "test_env \<Rightarrow> test_source \<Rightarrow> string \<Rightarrow> exn + resource_descr" where
  "resolve_description env source format_version =
     (case (case source of
              SourceDescr d \<Rightarrow>
                (if format_version \<noteq> ''discover'' \<and> rd_format_version d \<noteq> format_version
                 then (case dump_description env d of Inl e \<Rightarrow> Inl e | Inr c \<Rightarrow> Inr (SourceContent c))
                 else Inr source)
            | _ \<Rightarrow> Inr source) of
        Inl e \<Rightarrow> Inl e
      | Inr (SourceDescr d) \<Rightarrow> Inr d
      | Inr (SourceContent c) \<Rightarrow> build_description env c format_version
      | Inr (SourceFile f) \<Rightarrow> load_description env f format_version)"

text \<open>Lines 77 to 87: the tests on the description.\<close>

definition run_tests ::
  "test_env \<Rightarrow> resource_descr \<Rightarrow> string option \<Rightarrow> string list option \<Rightarrow> int \<Rightarrow> string option \<Rightarrow>
   resource_descr" where
  "run_tests env rd weight_format devices decimal expected_type =
     (let rd1 = rd\<lparr>rd_validation_summary :=
                    (rd_validation_summary rd)
                      \<lparr>vs_env := vs_env (rd_validation_summary rd)
                         @ [\<lparr>ip_name = ''bioimageio.core'', ip_version = bioimageio_core_version env\<rparr>]\<rparr>\<rparr>;
          rd2 = (case expected_type of None \<Rightarrow> rd1 | Some t \<Rightarrow> test_expected_resource_type rd1 t)
      in case rd_body rd2 of
           OtherDescr \<Rightarrow> rd2
         | ModelDescr model \<Rightarrow>
             (let rd3 = rd2\<lparr>rd_validation_summary :=
                             test_model_inference env model weight_format devices decimal
                               (rd_validation_summary rd2)\<rparr>
              in case model of
                   V0_4 m \<Rightarrow> rd3
                 | V0_5 m \<Rightarrow>
                     rd3\<lparr>rd_validation_summary :=
                           test_model_inference_with_parametrized_inputs env m weight_format devices
                             (rd_validation_summary rd3)\<rparr>))"

definition load_description_and_test ::
  "test_env \<Rightarrow> test_source \<Rightarrow> string \<Rightarrow> string option \<Rightarrow> string list option \<Rightarrow> int \<Rightarrow>
   string option \<Rightarrow> exn + resource_descr" where
  "load_description_and_test env source format_version weight_format devices decimal expected_type =
     (case resolve_description env source format_version of
        Inl e \<Rightarrow> Inl e
      | Inr rd \<Rightarrow> Inr (run_tests env rd weight_format devices decimal expected_type))"

definition test_description ::
  "test_env \<Rightarrow> test_source \<Rightarrow> string \<Rightarrow> string option \<Rightarrow> string list option \<Rightarrow> int \<Rightarrow>
   string option \<Rightarrow> exn + validation_summary" where
  "test_description env source format_version weight_format devices decimal expected_type =
     (case load_description_and_test env source format_version weight_format devices decimal
             expected_type of
        Inl e \<Rightarrow> Inl e
      | Inr rd \<Rightarrow> Inr (rd_validation_summary rd))"

definition test_model ::
  "test_env \<Rightarrow> test_source \<Rightarrow> string option \<Rightarrow> string list option \<Rightarrow> int \<Rightarrow> exn + validation_summary" where
  "test_model env source weight_format devices decimal =
     test_description env source ''discover'' weight_format devices decimal (Some ''model'')"

section \<open>Example values\<close>

definition example_tensor :: tensor where
  "example_tensor = Tensor (NDArray [1, 2] [7, 9]) [''b'', ''x'']"

definition example_pipeline :: pipeline where
  "example_pipeline =
     \<lparr>input_ids = [''raw''], input_axes = [[''b'', ''x'']],
      forward = (\<lambda>ts. Inr ts), pp_exit = None\<rparr>"

definition example_predict_env :: predict_env where
  "example_predict_env =
     \<lparr>from_numpy = (\<lambda>r axes. case r of
                       RawArray a \<Rightarrow> Inr (Tensor a axes)
                     | RawKey k \<Rightarrow> Inl (Exn ''TypeError'' k [])),
      iter_bare = (\<lambda>x. Inl (Exn ''TypeError'' ''iteration over a 0-d array'' []))\<rparr>"

definition example_v5_model :: v5_model where
  "example_v5_model =
     \<lparr>m5_name = ''unet'',
      m5_inputs = [\<lparr>in5_id = ''raw'',
                    in5_axes = [\<lparr>ax_id = ''b'', ax_size = FixedSize 1\<rparr>,
                                \<lparr>ax_id = ''x'', ax_size = ParameterizedSize 2 2\<rparr>],
                    in5_test_tensor = ''raw.npy'', in5_preprocessing = []\<rparr>],
      m5_outputs = [\<lparr>out5_id = ''mask'',
                     out5_axes = [\<lparr>ax_id = ''b'', ax_size = FixedSize 1\<rparr>,
                                  \<lparr>ax_id = ''x'', ax_size = SizeReference ''raw'' ''x''\<rparr>],
                     out5_test_tensor = ''mask.npy'', out5_postprocessing = []\<rparr>],
      m5_weights_onnx = Some ''weights.onnx''\<rparr>"

definition example_onnx_runtime :: onnx_runtime where
  "example_onnx_runtime = \<lparr>InferenceSession = (\<lambda>src. Inr (Session src [''input_0'']))\<rparr>"

text \<open>
  The operators assembled for one tensor, and for a model, written without the loops:
  what the properties of the assembly are stated against.
\<close>

definition v4_input_block :: "proc_ops \<Rightarrow> v4_input \<Rightarrow> processing list" where
  "v4_input_block ops t =
     EnsureDtype (in4_name t) (in4_name t) (in4_data_type t)
       # map (preproc_v4_to_processing ops t) (in4_preprocessing t)"

definition v4_output_block :: "proc_ops \<Rightarrow> v4_output \<Rightarrow> processing list" where
  "v4_output_block ops t =
     EnsureDtype (out4_name t) (out4_name t) (out4_data_type t)
       # map (postproc_v4_to_processing ops t) (out4_postprocessing t)"

definition v5_input_block :: "proc_ops \<Rightarrow> v5_input \<Rightarrow> processing list" where
  "v5_input_block ops t = map (preproc_v5_to_processing ops t) (in5_preprocessing t)"

definition v5_output_block :: "proc_ops \<Rightarrow> v5_output \<Rightarrow> processing list" where
  "v5_output_block ops t = map (postproc_v5_to_processing ops t) (out5_postprocessing t)"

definition assembled_pre :: "proc_ops \<Rightarrow> model_descr \<Rightarrow> processing list" where
  "assembled_pre ops model =
     (case model of
        V0_4 m \<Rightarrow> concat (map (v4_input_block ops) (m4_inputs m))
      | V0_5 m \<Rightarrow> concat (map (v5_input_block ops) (m5_inputs m)))"

definition assembled_post :: "proc_ops \<Rightarrow> model_descr \<Rightarrow> processing list" where
  "assembled_post ops model =
     (case model of
        V0_4 m \<Rightarrow> concat (map (v4_output_block ops) (m4_outputs m))
      | V0_5 m \<Rightarrow> concat (map (v5_output_block ops) (m5_outputs m)))"

text \<open>\<^verbatim>\<open>AddKnownDatasetStats\<close> at the very head, when fixed statistics were supplied.\<close>

definition known_stats_ops :: "stats option \<Rightarrow> processing list" where
  "known_stats_ops fixed_dataset_stats =
     (if truthy fixed_dataset_stats then [AddKnownDatasetStats (the fixed_dataset_stats)] else [])"

text \<open>Example values for the assembly of operators.\<close>

definition mean_of :: "string \<Rightarrow> measure" where
  "mean_of tid = Measure DatasetMeasure tid [] Mean"

definition example_required_measures :: "processing \<Rightarrow> measure set" where
  "example_required_measures p =
     (case p of
        Step tid d \<Rightarrow>
          (if pd_name d = ''zero_mean_unit_variance'' then {mean_of tid}
           else if pd_name d = ''scale_mean_variance''
           then (case map_of (pd_kwargs d) ''reference_tensor'' of
                   Some r \<Rightarrow> {mean_of r} | None \<Rightarrow> {})
           else {})
      | _ \<Rightarrow> {})"

definition example_proc_ops :: proc_ops where
  "example_proc_ops =
     \<lparr>preproc_v4_to_processing = (\<lambda>t d. Step (in4_name t) d),
      postproc_v4_to_processing = (\<lambda>t d. Step (out4_name t) d),
      preproc_v5_to_processing = (\<lambda>t d. Step (in5_id t) d),
      postproc_v5_to_processing = (\<lambda>t d. Step (out5_id t) d),
      required_measures = example_required_measures,
      finalize = (\<lambda>c. if sc_updates c = [] then Inl (Exn ''ValueError'' ''no sample seen'' [])
                       else Inr [(mean_of ''raw'', Scalar 2)])\<rparr>"

definition example_v5_stats_model :: v5_model where
  "example_v5_stats_model =
     \<lparr>m5_name = ''unet'',
      m5_inputs = [\<lparr>in5_id = ''raw'',
                    in5_axes = [\<lparr>ax_id = ''x'', ax_size = FixedSize 2\<rparr>],
                    in5_test_tensor = ''raw.npy'',
                    in5_preprocessing = [ProcDescr ''zero_mean_unit_variance'' []]\<rparr>],
      m5_outputs = [\<lparr>out5_id = ''mask'',
                     out5_axes = [\<lparr>ax_id = ''x'', ax_size = FixedSize 2\<rparr>],
                     out5_test_tensor = ''mask.npy'',
                     out5_postprocessing =
                       [ProcDescr ''scale_mean_variance'' [(''reference_tensor'', ''raw'')]]\<rparr>],
      m5_weights_onnx = None\<rparr>"

definition example_v4_model :: v4_model where
  "example_v4_model =
     \<lparr>m4_name = ''legacy'',
      m4_inputs = [\<lparr>in4_name = ''raw'', in4_data_type = ''float32'', in4_axes = ''bx'',
                    in4_preprocessing = []\<rparr>],
      m4_outputs = [\<lparr>out4_name = ''mask'', out4_data_type = ''uint8'', out4_axes = ''bx'',
                     out4_postprocessing = [ProcDescr ''binarize'' [(''threshold'', ''0.5'')]]\<rparr>],
      m4_test_inputs = [''raw.npy''], m4_test_outputs = [''mask.npy''],
      m4_weights_onnx = None\<rparr>"

definition example_sample :: sample where
  "example_sample = [(''raw'', example_tensor)]"

text \<open>A model whose steps require the mean of \<open>raw\<close> before and the mean of \<open>mask\<close> after the model.\<close>

definition example_v5_two_stats_model :: v5_model where
  "example_v5_two_stats_model =
     \<lparr>m5_name = ''unet'',
      m5_inputs = [\<lparr>in5_id = ''raw'',
                    in5_axes = [\<lparr>ax_id = ''x'', ax_size = FixedSize 2\<rparr>],
                    in5_test_tensor = ''raw.npy'',
                    in5_preprocessing = [ProcDescr ''zero_mean_unit_variance'' []]\<rparr>],
      m5_outputs = [\<lparr>out5_id = ''mask'',
                     out5_axes = [\<lparr>ax_id = ''x'', ax_size = FixedSize 2\<rparr>],
                     out5_test_tensor = ''mask.npy'',
                     out5_postprocessing = [ProcDescr ''zero_mean_unit_variance'' []]\<rparr>],
      m5_weights_onnx = None\<rparr>"

text \<open>
  A test case passes: it is generated, \<^verbatim>\<open>forward\<close> returns, and the shapes of the
  results are the expected shapes, one for one.
\<close>

definition case_ok :: "test_env \<Rightarrow> v5_model \<Rightarrow> pipeline \<Rightarrow> tensor list \<Rightarrow> nat \<Rightarrow> bool" where
  "case_ok env m prediction_pipeline test_inputs n =
     (case test_case env m test_inputs n of
        Inl e \<Rightarrow> False
      | Inr (inputs, expected_output_shape) \<Rightarrow>
          (case forward prediction_pipeline inputs of
             Inl e \<Rightarrow> False
           | Inr results \<Rightarrow> map (\<lambda>r. nd_shape (t_data r)) results = expected_output_shape))"

text \<open>Example values for the tests.\<close>

definition example_two_output_pipeline :: pipeline where
  "example_two_output_pipeline =
     \<lparr>input_ids = [''raw''], input_axes = [[''b'', ''x'']],
      forward = (\<lambda>ts. Inr (ts @ ts)), pp_exit = None\<rparr>"

definition example_test_env :: test_env where
  "example_test_env =
     \<lparr>bioimageio_core_version = ''0.5.0'',
      dump_description = (\<lambda>d. Inr YNull),
      build_description = (\<lambda>c f. Inl (Exn ''ValueError'' ''no content'' [])),
      load_description = (\<lambda>p f. Inl (Exn ''FileNotFoundError'' p [])),
      load_array = (\<lambda>p. Inr (NDArray [1, 2] [7, 9])),
      download_path = (\<lambda>p. Inr p),
      DataArray = (\<lambda>a d. case d of DimsSeq ds \<Rightarrow> Inr (Tensor a ds) | DimsStr x \<Rightarrow> Inr (Tensor a [x])),
      create_prediction_pipeline = (\<lambda>m d w. Inr example_pipeline),
      assert_array_almost_equal =
        (\<lambda>r e d. if r = e then CmpPass else CmpAssertionError ''Arrays are not almost equal''),
      test_case = (\<lambda>m ti n. Inr ([Tensor (NDArray [1, 2 + 2 * n] []) [''b'', ''x'']], [[1, 2 + 2 * n]])),
      str_shapes = (\<lambda>ss. concat (map (\<lambda>sh. concat (map (\<lambda>d. str_nat d @ '','') sh) @ '';'') ss)),
      str_shape = (\<lambda>sh. concat (map (\<lambda>d. str_nat d @ '','') sh))\<rparr>"

definition example_failing_env :: test_env where
  "example_failing_env =
     example_test_env\<lparr>load_array :=
       (\<lambda>p. Inl (Exn ''FileNotFoundError'' ''No such file'' [''File io_utils.py, in load_array'']))\<rparr>"

definition example_two_output_env :: test_env where
  "example_two_output_env =
     example_test_env\<lparr>create_prediction_pipeline := (\<lambda>m d w. Inr example_two_output_pipeline)\<rparr>"

definition example_rd :: resource_descr where
  "example_rd =
     \<lparr>rd_type = ''model'', rd_format_version = ''0.5.0'',
      rd_body = ModelDescr (V0_5 example_v5_model),
      rd_validation_summary = \<lparr>vs_details = [], vs_env = []\<rparr>\<rparr>"

section \<open>Properties of download_rdf\<close>

lemma select_rdf_file_name_cases:
  "select_rdf_file_name p names =
     (if length (rdfs_of names) > 1 then Inl (ValueError_multiple_rdfs (rdfs_of names))
      else if length (rdfs_of names) = 1 then Inr (hd (rdfs_of names))
      else if LEGACY_RDF_NAME \<in> set names then Inr LEGACY_RDF_NAME
      else Inl (ValueError_no_rdf_found p))"
  by (cases "rdfs_of names") (simp_all add: select_rdf_file_name_def rdfs_of_def Let_def)

lemma load_rdf_content_not_mapping:
  "yaml_load env p = Inr c \<Longrightarrow> \<not> is_mapping c \<Longrightarrow>
   load_rdf_content env lf p = Inl (TypeError_not_a_mapping c)"
  by (simp add: load_rdf_content_def)

lemma load_rdf_content_mapping:
  "yaml_load env p = Inr c \<Longrightarrow> is_mapping c \<Longrightarrow>
   load_rdf_content env lf p =
     Inr \<lparr>lr_content = c, lr_root = lf_original_root lf, lr_file_name = lf_original_file_name lf\<rparr>"
  by (simp add: load_rdf_content_def)

lemma download_rdf_zip:
  "download env source = Inr lf \<Longrightarrow> is_zipfile env (lf_path lf) \<Longrightarrow>
   download_rdf env source =
     (case select_rdf_file_name (lf_path lf) (namelist env (lf_path lf)) of
        Inl err \<Rightarrow> Inl err
      | Inr n \<Rightarrow>
          (case extractall env (lf_path lf) (unzip_path (lf_path lf)) of
             Some e \<Rightarrow> Inl (Raised e)
           | None \<Rightarrow> load_rdf_content env lf (path_join (unzip_path (lf_path lf)) n)))"
  by (simp add: download_rdf_def Let_def)

text \<open>
  C10. For a source that downloads to a zip archive with member names \<open>names\<close>:
  more than one name ending in \<^verbatim>\<open>.bioimageio.yaml\<close> raises ValueError; exactly one
  makes that member the file that is read after extraction; none makes
  \<^verbatim>\<open>rdf.yaml\<close> the file that is read when the archive has it, and raises ValueError
  when it has not; and whichever file is read (in a zip archive or not), content that is
  not a mapping raises TypeError, while a mapping is returned with the root and file name
  of the download.
\<close>

theorem download_rdf_resolution:
  assumes dl: "download env source = Inr lf"
    and names: "names = namelist env (lf_path lf)"
    and out: "out = unzip_path (lf_path lf)"
    and extracted: "extracted = (extractall env (lf_path lf) out = None)"
  shows "(is_zipfile env (lf_path lf) \<longrightarrow>
           (length (rdfs_of names) > 1 \<longrightarrow>
              download_rdf env source = Inl (ValueError_multiple_rdfs (rdfs_of names))) \<and>
           (length (rdfs_of names) = 1 \<and> extracted \<longrightarrow>
              download_rdf env source = load_rdf_content env lf (path_join out (hd (rdfs_of names)))) \<and>
           (rdfs_of names = [] \<and> LEGACY_RDF_NAME \<in> set names \<and> extracted \<longrightarrow>
              download_rdf env source = load_rdf_content env lf (path_join out LEGACY_RDF_NAME)) \<and>
           (rdfs_of names = [] \<and> LEGACY_RDF_NAME \<notin> set names \<longrightarrow>
              download_rdf env source = Inl (ValueError_no_rdf_found (lf_path lf)))) \<and>
         (\<not> is_zipfile env (lf_path lf) \<longrightarrow>
           download_rdf env source = load_rdf_content env lf (lf_path lf)) \<and>
         (\<forall>p c. yaml_load env p = Inr c \<longrightarrow>
           load_rdf_content env lf p =
             (if is_mapping c
              then Inr \<lparr>lr_content = c, lr_root = lf_original_root lf,
                        lr_file_name = lf_original_file_name lf\<rparr>
              else Inl (TypeError_not_a_mapping c))) \<and>
         (\<forall>c. error_class (TypeError_not_a_mapping c) = ''TypeError'') \<and>
         (\<forall>l. error_class (ValueError_multiple_rdfs l) = ''ValueError'') \<and>
         (\<forall>p. error_class (ValueError_no_rdf_found p) = ''ValueError'')"
proof -
  have zip: "is_zipfile env (lf_path lf) \<longrightarrow>
           (length (rdfs_of names) > 1 \<longrightarrow>
              download_rdf env source = Inl (ValueError_multiple_rdfs (rdfs_of names))) \<and>
           (length (rdfs_of names) = 1 \<and> extracted \<longrightarrow>
              download_rdf env source = load_rdf_content env lf (path_join out (hd (rdfs_of names)))) \<and>
           (rdfs_of names = [] \<and> LEGACY_RDF_NAME \<in> set names \<and> extracted \<longrightarrow>
              download_rdf env source = load_rdf_content env lf (path_join out LEGACY_RDF_NAME)) \<and>
           (rdfs_of names = [] \<and> LEGACY_RDF_NAME \<notin> set names \<longrightarrow>
              download_rdf env source = Inl (ValueError_no_rdf_found (lf_path lf)))"
    using dl names out extracted
    by (simp add: download_rdf_zip select_rdf_file_name_cases)
  have plain: "\<not> is_zipfile env (lf_path lf) \<longrightarrow>
           download_rdf env source = load_rdf_content env lf (lf_path lf)"
    using dl by (simp add: download_rdf_def Let_def)
  have content: "\<forall>p c. yaml_load env p = Inr c \<longrightarrow>
           load_rdf_content env lf p =
             (if is_mapping c
              then Inr \<lparr>lr_content = c, lr_root = lf_original_root lf,
                        lr_file_name = lf_original_file_name lf\<rparr>
              else Inl (TypeError_not_a_mapping c))"
    by (simp add: load_rdf_content_def)
  from zip plain content show ?thesis by simp
qed

theorem download_rdf_resolution_witness:
  "download example_io_env ''m.zip'' =
     Inr \<lparr>lf_path = ''m.zip'', lf_original_root = ''/tmp'', lf_original_file_name = ''m.zip''\<rparr> \<and>
   is_zipfile example_io_env ''m.zip'' \<and>
   rdfs_of (namelist example_io_env ''m.zip'') = [''unet.bioimageio.yaml''] \<and>
   extractall example_io_env ''m.zip'' (unzip_path ''m.zip'') = None \<and>
   download_rdf example_io_env ''m.zip'' =
     Inr \<lparr>lr_content = YMapping [(''type'', YScalar ''model'')], lr_root = ''/tmp'',
          lr_file_name = ''m.zip''\<rparr>"
  using download_rdf_resolution [of example_io_env "''m.zip''"
      "\<lparr>lf_path = ''m.zip'', lf_original_root = ''/tmp'', lf_original_file_name = ''m.zip''\<rparr>"
      "namelist example_io_env ''m.zip''" "unzip_path ''m.zip''" True]
  by (simp add: example_io_env_def rdfs_of_def endswith_def unzip_path_def path_join_def)

section \<open>Properties of predict\<close>

lemma tag_and_forward_not_assertion: "tag_and_forward env pp inputs \<noteq> Inl AssertionError"
  by (simp add: tag_and_forward_def split: sum.splits)

text \<open>
  C9. For a list or tuple, \<^verbatim>\<open>predict\<close> fails its assertion exactly when the length
  differs from the number of declared input ids, and otherwise goes on to tagging and
  \<^verbatim>\<open>forward\<close>; a bare tensor or array is wrapped as a one-element sequence first, so
  the same check compares 1 with the number of declared input ids.
\<close>

theorem predict_length_check:
  "(length xs \<noteq> length (input_ids pp) \<longrightarrow> predict env pp (Seq xs) = Inl AssertionError) \<and>
   (length xs = length (input_ids pp) \<longrightarrow>
      inputs_seq_of pp (Seq xs) = Inr xs \<and>
      predict env pp (Seq xs) = tag_and_forward env pp (Seq xs) \<and>
      predict env pp (Seq xs) \<noteq> Inl AssertionError) \<and>
   inputs_seq_of pp (Bare x) = inputs_seq_of pp (Seq [x]) \<and>
   (length (input_ids pp) \<noteq> 1 \<longrightarrow> predict env pp (Bare x) = Inl AssertionError) \<and>
   (length (input_ids pp) = 1 \<longrightarrow>
      inputs_seq_of pp (Bare x) = Inr [x] \<and>
      predict env pp (Bare x) = tag_and_forward env pp (Bare x) \<and>
      predict env pp (Bare x) \<noteq> Inl AssertionError)"
proof -
  have seq_bad: "length xs \<noteq> length (input_ids pp) \<longrightarrow> predict env pp (Seq xs) = Inl AssertionError"
    by (simp add: predict_def inputs_seq_of_def)
  have seq_ok: "length xs = length (input_ids pp) \<longrightarrow>
      inputs_seq_of pp (Seq xs) = Inr xs \<and>
      predict env pp (Seq xs) = tag_and_forward env pp (Seq xs) \<and>
      predict env pp (Seq xs) \<noteq> Inl AssertionError"
    by (simp add: predict_def inputs_seq_of_def tag_and_forward_not_assertion)
  have wrap: "inputs_seq_of pp (Bare x) = inputs_seq_of pp (Seq [x])"
    by (simp add: inputs_seq_of_def)
  have bare_bad: "length (input_ids pp) \<noteq> 1 \<longrightarrow> predict env pp (Bare x) = Inl AssertionError"
    by (auto simp add: predict_def inputs_seq_of_def)
  have bare_ok: "length (input_ids pp) = 1 \<longrightarrow>
      inputs_seq_of pp (Bare x) = Inr [x] \<and>
      predict env pp (Bare x) = tag_and_forward env pp (Bare x) \<and>
      predict env pp (Bare x) \<noteq> Inl AssertionError"
    by (simp add: predict_def inputs_seq_of_def tag_and_forward_not_assertion)
  from seq_bad seq_ok wrap bare_bad bare_ok show ?thesis by blast
qed

theorem predict_length_check_witness:
  "length [IsTensor example_tensor] = length (input_ids example_pipeline) \<and>
   predict example_predict_env example_pipeline (Seq [IsTensor example_tensor]) = Inr [example_tensor] \<and>
   length [IsTensor example_tensor, IsTensor example_tensor] \<noteq> length (input_ids example_pipeline) \<and>
   predict example_predict_env example_pipeline (Seq [IsTensor example_tensor, IsTensor example_tensor])
     = Inl AssertionError"
  using predict_length_check [of "[IsTensor example_tensor]" example_pipeline example_predict_env]
    predict_length_check [of "[IsTensor example_tensor, IsTensor example_tensor]" example_pipeline
      example_predict_env]
  by (simp add: example_pipeline_def tag_and_forward_def iterate_inputs_def)

section \<open>Properties of the ONNX model adapter\<close>

text \<open>
  C8. Whether the construction of the ONNX adapter succeeds, and the adapter it builds,
  do not depend on the device list: with any device list it fails with the same
  exception or builds the same adapter as without one, and when it succeeds with a
  device list its only effect besides is one warning naming the ignored devices.
  \<^verbatim>\<open>unload\<close> returns with one warning and leaves the adapter as it is.
\<close>

theorem onnx_unsupported_capabilities_warn:
  "map_sum id fst (ONNXModelAdapter_init rt m (Some d)) = map_sum id fst (ONNXModelAdapter_init rt m None) \<and>
   (\<forall>a ws. ONNXModelAdapter_init rt m (Some d) = Inr (a, ws) \<longrightarrow>
      ws = [DevicesIgnored d] \<and> ONNXModelAdapter_init rt m None = Inr (a, [])) \<and>
   (\<forall>err. ONNXModelAdapter_init rt m (Some d) = Inl err \<longrightarrow> ONNXModelAdapter_init rt m None = Inl err) \<and>
   ONNXModelAdapter_unload a0 = Inr (a0, [CannotUnload])"
  by (auto simp add: ONNXModelAdapter_init_def ONNXModelAdapter_unload_def Let_def
      split: option.splits sum.splits)

theorem onnx_unsupported_capabilities_warn_witness:
  "ONNXModelAdapter_init (Some example_onnx_runtime) (V0_5 example_v5_model) (Some [''cuda:0'']) =
     Inr (\<lparr>internal_output_axes = [[''b'', ''x'']], session = Session ''weights.onnx'' [''input_0''],
           oa_input_names = [''input_0'']\<rparr>, [DevicesIgnored [''cuda:0'']]) \<and>
   ONNXModelAdapter_init (Some example_onnx_runtime) (V0_5 example_v5_model) None =
     Inr (\<lparr>internal_output_axes = [[''b'', ''x'']], session = Session ''weights.onnx'' [''input_0''],
           oa_input_names = [''input_0'']\<rparr>, [])"
  using onnx_unsupported_capabilities_warn [of "Some example_onnx_runtime" "V0_5 example_v5_model"
      "[''cuda:0'']"]
  by (simp add: ONNXModelAdapter_init_def example_onnx_runtime_def example_v5_model_def
      output_axes_of_def weights_onnx_def)

section \<open>Properties of the assembly of operators\<close>

lemma append_procs_eq: "append_procs convert procs ds = procs @ map convert ds"
  by (induction ds arbitrary: procs) simp_all

lemma v4_preprocs_loop_eq:
  "v4_preprocs_loop ops procs ts = procs @ concat (map (v4_input_block ops) ts)"
  by (induction ts arbitrary: procs) (simp_all add: append_procs_eq v4_input_block_def Let_def)

lemma v4_postprocs_loop_eq:
  "v4_postprocs_loop ops procs ts = procs @ concat (map (v4_output_block ops) ts)"
  by (induction ts arbitrary: procs) (simp_all add: append_procs_eq v4_output_block_def Let_def)

lemma v5_preprocs_loop_eq:
  "v5_preprocs_loop ops procs ts = procs @ concat (map (v5_input_block ops) ts)"
  by (induction ts arbitrary: procs) (simp_all add: append_procs_eq v5_input_block_def)

lemma v5_postprocs_loop_eq:
  "v5_postprocs_loop ops procs ts = procs @ concat (map (v5_output_block ops) ts)"
  by (induction ts arbitrary: procs) (simp_all add: append_procs_eq v5_output_block_def)

lemma prepare_setup_eq:
  "prepare_setup_pre_and_postprocessing ops model =
     \<lparr>sp_pre = assembled_pre ops model, sp_post = assembled_post ops model,
      sp_pre_measures = measures_of ops (assembled_pre ops model),
      sp_post_measures = measures_of ops (assembled_post ops model)\<rparr>"
  by (cases model)
    (simp_all add: prepare_setup_pre_and_postprocessing_def assembled_pre_def assembled_post_def
      prepare_v4_preprocs_def prepare_v4_postprocs_def prepare_v5_preprocs_def
      prepare_v5_postprocs_def Let_def v4_preprocs_loop_eq v4_postprocs_loop_eq
      v5_preprocs_loop_eq v5_postprocs_loop_eq)

lemma setup_eq:
  "setup_pre_and_postprocessing ops model dataset keep fixed =
     (case initial_stats_of ops
             (missing_dataset_stats (measures_of ops (assembled_pre ops model))
                (measures_of ops (assembled_post ops model)) fixed) dataset of
        Inl e \<Rightarrow> Inl (Raised e)
      | Inr st \<Rightarrow>
          Inr (known_stats_ops fixed
                 @ [UpdateStats (StatsCalculator (measures_of ops (assembled_pre ops model)) (Some st)) keep]
                 @ assembled_pre ops model,
               known_stats_ops fixed
                 @ (if measures_of ops (assembled_post ops model) \<noteq> {}
                    then [UpdateStats (StatsCalculator (measures_of ops (assembled_post ops model)) (Some st)) keep]
                    else [])
                 @ assembled_post ops model))"
  by (simp add: setup_pre_and_postprocessing_def prepare_setup_eq Let_def insert0_def
      known_stats_ops_def split: sum.splits)


lemma foldl_sc_update_measures: "sc_measures (foldl sc_update c ds) = sc_measures c"
  by (induction ds arbitrary: c) (simp_all add: sc_update_def)

lemma foldl_sc_update_updates: "sc_updates (foldl sc_update c ds) = sc_updates c @ ds"
  by (induction ds arbitrary: c) (simp_all add: sc_update_def)

lemma initial_stats_calc_fields:
  "sc_measures (initial_stats_calc missing dataset) = missing \<and>
   sc_updates (initial_stats_calc missing dataset) = dataset \<and>
   sc_initial_dataset_measures (initial_stats_calc missing dataset) = None"
  by (induction dataset rule: rev_induct)
    (simp_all add: initial_stats_calc_def StatsCalculator_def sc_update_def)

text \<open>
  A v0.5 model whose only input and only output declare no processing step: the assembled
  lists are empty, so they hold no \<open>EnsureDtype\<close> operator.
\<close>

theorem ensure_dtype_v5_counterexample:
  "in5_preprocessing (hd (m5_inputs example_v5_model)) = [] \<and>
   fst (prepare_v5_preprocs example_proc_ops (m5_inputs example_v5_model)) = [] \<and>
   out5_postprocessing (hd (m5_outputs example_v5_model)) = [] \<and>
   fst (prepare_v5_postprocs example_proc_ops (m5_outputs example_v5_model)) = [] \<and>
   sp_pre (prepare_setup_pre_and_postprocessing example_proc_ops (V0_5 example_v5_model)) = []"
  by (simp add: example_v5_model_def prepare_v5_preprocs_def prepare_v5_postprocs_def
      prepare_setup_pre_and_postprocessing_def Let_def)

text \<open>
  C4 (amended). For every tensor description of a v0.4 model, also one that declares no
  processing step, the assembled list holds the \<open>EnsureDtype\<close> operator of that tensor,
  first in the tensor's block, so the block has length at least 1 and is exactly that
  operator when no step is declared. The list of a direction is the concatenation of the
  blocks in the order of the tensors. A tensor description of a v0.5 model contributes
  its declared steps and nothing else.
\<close>

theorem ensure_dtype_v4_tensors:
  "fst (prepare_v4_preprocs ops ins) = concat (map (v4_input_block ops) ins) \<and>
   fst (prepare_v4_postprocs ops outs) = concat (map (v4_output_block ops) outs) \<and>
   (\<forall>t \<in> set ins.
      hd (v4_input_block ops t) = EnsureDtype (in4_name t) (in4_name t) (in4_data_type t) \<and>
      1 \<le> length (v4_input_block ops t) \<and>
      EnsureDtype (in4_name t) (in4_name t) (in4_data_type t) \<in> set (fst (prepare_v4_preprocs ops ins)) \<and>
      (in4_preprocessing t = [] \<longrightarrow>
         v4_input_block ops t = [EnsureDtype (in4_name t) (in4_name t) (in4_data_type t)])) \<and>
   (\<forall>t \<in> set outs.
      hd (v4_output_block ops t) = EnsureDtype (out4_name t) (out4_name t) (out4_data_type t) \<and>
      1 \<le> length (v4_output_block ops t) \<and>
      EnsureDtype (out4_name t) (out4_name t) (out4_data_type t) \<in> set (fst (prepare_v4_postprocs ops outs)) \<and>
      (out4_postprocessing t = [] \<longrightarrow>
         v4_output_block ops t = [EnsureDtype (out4_name t) (out4_name t) (out4_data_type t)])) \<and>
   fst (prepare_v5_preprocs ops ins5) = concat (map (v5_input_block ops) ins5) \<and>
   fst (prepare_v5_postprocs ops outs5) = concat (map (v5_output_block ops) outs5) \<and>
   (\<forall>t. length (v5_input_block ops t) = length (in5_preprocessing t)) \<and>
   (\<forall>t. length (v5_output_block ops t) = length (out5_postprocessing t))"
proof -
  have pre: "fst (prepare_v4_preprocs ops ins) = concat (map (v4_input_block ops) ins)"
    by (simp add: prepare_v4_preprocs_def Let_def v4_preprocs_loop_eq)
  have post: "fst (prepare_v4_postprocs ops outs) = concat (map (v4_output_block ops) outs)"
    by (simp add: prepare_v4_postprocs_def Let_def v4_postprocs_loop_eq)
  have ins: "\<forall>t \<in> set ins.
      hd (v4_input_block ops t) = EnsureDtype (in4_name t) (in4_name t) (in4_data_type t) \<and>
      1 \<le> length (v4_input_block ops t) \<and>
      EnsureDtype (in4_name t) (in4_name t) (in4_data_type t) \<in> set (fst (prepare_v4_preprocs ops ins)) \<and>
      (in4_preprocessing t = [] \<longrightarrow>
         v4_input_block ops t = [EnsureDtype (in4_name t) (in4_name t) (in4_data_type t)])"
    unfolding pre by (auto simp add: v4_input_block_def)
  have outs: "\<forall>t \<in> set outs.
      hd (v4_output_block ops t) = EnsureDtype (out4_name t) (out4_name t) (out4_data_type t) \<and>
      1 \<le> length (v4_output_block ops t) \<and>
      EnsureDtype (out4_name t) (out4_name t) (out4_data_type t) \<in> set (fst (prepare_v4_postprocs ops outs)) \<and>
      (out4_postprocessing t = [] \<longrightarrow>
         v4_output_block ops t = [EnsureDtype (out4_name t) (out4_name t) (out4_data_type t)])"
    unfolding post by (auto simp add: v4_output_block_def)
  have pre5: "fst (prepare_v5_preprocs ops ins5) = concat (map (v5_input_block ops) ins5)"
    by (simp add: prepare_v5_preprocs_def Let_def v5_preprocs_loop_eq)
  have post5: "fst (prepare_v5_postprocs ops outs5) = concat (map (v5_output_block ops) outs5)"
    by (simp add: prepare_v5_postprocs_def Let_def v5_postprocs_loop_eq)
  have len5: "(\<forall>t. length (v5_input_block ops t) = length (in5_preprocessing t)) \<and>
    (\<forall>t. length (v5_output_block ops t) = length (out5_postprocessing t))"
    by (simp add: v5_input_block_def v5_output_block_def)
  from pre post ins outs pre5 post5 len5 show ?thesis by blast
qed

theorem ensure_dtype_v4_tensors_witness:
  "hd (m4_inputs example_v4_model) \<in> set (m4_inputs example_v4_model) \<and>
   in4_preprocessing (hd (m4_inputs example_v4_model)) = [] \<and>
   fst (prepare_v4_preprocs example_proc_ops (m4_inputs example_v4_model)) =
     [EnsureDtype ''raw'' ''raw'' ''float32''] \<and>
   fst (prepare_v4_postprocs example_proc_ops (m4_outputs example_v4_model)) =
     [EnsureDtype ''mask'' ''mask'' ''uint8'',
      Step ''mask'' (ProcDescr ''binarize'' [(''threshold'', ''0.5'')])]"
  using ensure_dtype_v4_tensors [of example_proc_ops "m4_inputs example_v4_model"
      "m4_outputs example_v4_model" "[]" "[]"]
  by (simp add: example_v4_model_def example_proc_ops_def v4_input_block_def v4_output_block_def)

text \<open>
  A v0.5 model without processing steps gets an \<open>UpdateStats\<close> operator in the list
  before the model only: the list after the model is empty. With fixed statistics
  supplied, the head of both lists is \<open>AddKnownDatasetStats\<close>, not \<open>UpdateStats\<close>.
\<close>

theorem setup_operator_lists_counterexample:
  "setup_pre_and_postprocessing example_proc_ops (V0_5 example_v5_model) [] False None =
     Inr ([UpdateStats \<lparr>sc_measures = {}, sc_initial_dataset_measures = Some [], sc_updates = []\<rparr> False],
          []) \<and>
   map_sum id (\<lambda>r. (hd (fst r), hd (snd r)))
     (setup_pre_and_postprocessing example_proc_ops (V0_5 example_v5_stats_model) [example_sample] True
        (Some [(mean_of ''mask'', Scalar 5)])) =
     Inr (AddKnownDatasetStats [(mean_of ''mask'', Scalar 5)],
          AddKnownDatasetStats [(mean_of ''mask'', Scalar 5)])"
  by (simp add: setup_eq assembled_pre_def assembled_post_def example_v5_model_def
      example_v5_stats_model_def v5_input_block_def v5_output_block_def measures_of_def
      missing_dataset_stats_def initial_stats_of_def StatsCalculator_def known_stats_ops_def
      example_proc_ops_def example_required_measures_def mean_of_def initial_stats_calc_def
      sc_update_def example_sample_def)

text \<open>
  C2 (amended). Unless \<^verbatim>\<open>finalize\<close> raises in the initial pass (then the call raises
  the same exception), \<^verbatim>\<open>setup_pre_and_postprocessing\<close> returns two lists. The list
  before the model is: \<open>AddKnownDatasetStats\<close> when non-empty fixed statistics were
  supplied; then \<open>UpdateStats\<close> with a calculator constructed from the measures that
  direction requires and the finalized initial statistics, and the online-update flag;
  then the assembled operators of the direction, the declared steps in declared order
  (for v0.4 each tensor's \<open>EnsureDtype\<close> before its steps). The list after the model is
  the same, except that its \<open>UpdateStats\<close> is present only when that direction
  requires at least one measure.
\<close>

theorem setup_operator_lists:
  assumes pre_meas: "pre_meas = measures_of ops (assembled_pre ops model)"
    and post_meas: "post_meas = measures_of ops (assembled_post ops model)"
  shows "setup_pre_and_postprocessing ops model dataset keep fixed =
           (case initial_stats_of ops (missing_dataset_stats pre_meas post_meas fixed) dataset of
              Inl e \<Rightarrow> Inl (Raised e)
            | Inr st \<Rightarrow>
                Inr (known_stats_ops fixed
                       @ [UpdateStats (StatsCalculator pre_meas (Some st)) keep]
                       @ assembled_pre ops model,
                     known_stats_ops fixed
                       @ (if post_meas \<noteq> {}
                          then [UpdateStats (StatsCalculator post_meas (Some st)) keep]
                          else [])
                       @ assembled_post ops model)) \<and>
         (\<forall>m. model = V0_5 m \<longrightarrow>
            assembled_pre ops model =
              concat (map (\<lambda>t. map (preproc_v5_to_processing ops t) (in5_preprocessing t)) (m5_inputs m)) \<and>
            assembled_post ops model =
              concat (map (\<lambda>t. map (postproc_v5_to_processing ops t) (out5_postprocessing t)) (m5_outputs m))) \<and>
         (\<forall>m. model = V0_4 m \<longrightarrow>
            assembled_pre ops model =
              concat (map (\<lambda>t. EnsureDtype (in4_name t) (in4_name t) (in4_data_type t)
                                 # map (preproc_v4_to_processing ops t) (in4_preprocessing t))
                        (m4_inputs m)) \<and>
            assembled_post ops model =
              concat (map (\<lambda>t. EnsureDtype (out4_name t) (out4_name t) (out4_data_type t)
                                 # map (postproc_v4_to_processing ops t) (out4_postprocessing t))
                        (m4_outputs m))) \<and>
         known_stats_ops fixed =
           (case fixed of
              None \<Rightarrow> []
            | Some f \<Rightarrow> if f = [] then [] else [AddKnownDatasetStats f])"
proof -
  have lists: "setup_pre_and_postprocessing ops model dataset keep fixed =
           (case initial_stats_of ops (missing_dataset_stats pre_meas post_meas fixed) dataset of
              Inl e \<Rightarrow> Inl (Raised e)
            | Inr st \<Rightarrow>
                Inr (known_stats_ops fixed
                       @ [UpdateStats (StatsCalculator pre_meas (Some st)) keep]
                       @ assembled_pre ops model,
                     known_stats_ops fixed
                       @ (if post_meas \<noteq> {}
                          then [UpdateStats (StatsCalculator post_meas (Some st)) keep]
                          else [])
                       @ assembled_post ops model))"
    unfolding pre_meas post_meas by (rule setup_eq)
  have v5: "\<forall>m. model = V0_5 m \<longrightarrow>
            assembled_pre ops model =
              concat (map (\<lambda>t. map (preproc_v5_to_processing ops t) (in5_preprocessing t)) (m5_inputs m)) \<and>
            assembled_post ops model =
              concat (map (\<lambda>t. map (postproc_v5_to_processing ops t) (out5_postprocessing t)) (m5_outputs m))"
    by (simp add: assembled_pre_def assembled_post_def v5_input_block_def v5_output_block_def
        cong: map_cong)
  have v4: "\<forall>m. model = V0_4 m \<longrightarrow>
            assembled_pre ops model =
              concat (map (\<lambda>t. EnsureDtype (in4_name t) (in4_name t) (in4_data_type t)
                                 # map (preproc_v4_to_processing ops t) (in4_preprocessing t))
                        (m4_inputs m)) \<and>
            assembled_post ops model =
              concat (map (\<lambda>t. EnsureDtype (out4_name t) (out4_name t) (out4_data_type t)
                                 # map (postproc_v4_to_processing ops t) (out4_postprocessing t))
                        (m4_outputs m))"
    by (simp add: assembled_pre_def assembled_post_def v4_input_block_def v4_output_block_def
        cong: map_cong)
  have known: "known_stats_ops fixed =
           (case fixed of
              None \<Rightarrow> []
            | Some f \<Rightarrow> if f = [] then [] else [AddKnownDatasetStats f])"
    by (cases fixed) (simp_all add: known_stats_ops_def)
  from lists v5 v4 known show ?thesis by blast
qed

lemmas ex_simps = assembled_pre_def assembled_post_def example_v5_model_def
      example_v5_stats_model_def v5_input_block_def v5_output_block_def measures_of_def
      missing_dataset_stats_def initial_stats_of_def StatsCalculator_def known_stats_ops_def
      example_proc_ops_def example_required_measures_def mean_of_def initial_stats_calc_def
      sc_update_def example_sample_def

text \<open>The assembly for a model whose steps before and after the model require the mean of \<open>raw\<close>.\<close>

theorem setup_operator_lists_witness:
  "setup_pre_and_postprocessing example_proc_ops (V0_5 example_v5_stats_model) [example_sample] True None =
     Inr ([UpdateStats \<lparr>sc_measures = {mean_of ''raw''},
                        sc_initial_dataset_measures = Some [(mean_of ''raw'', Scalar 2)],
                        sc_updates = []\<rparr> True,
           Step ''raw'' (ProcDescr ''zero_mean_unit_variance'' [])],
          [UpdateStats \<lparr>sc_measures = {mean_of ''raw''},
                        sc_initial_dataset_measures = Some [(mean_of ''raw'', Scalar 2)],
                        sc_updates = []\<rparr> True,
           Step ''mask'' (ProcDescr ''scale_mean_variance'' [(''reference_tensor'', ''raw'')])])"
  using setup_operator_lists [of "{mean_of ''raw''}" example_proc_ops "V0_5 example_v5_stats_model"
      "{mean_of ''raw''}" "[example_sample]" True None]
  by (simp add: ex_simps)

text \<open>
  A measure required before and after the model for which the caller fixed a value: the
  set of measures of the initial pass is empty, no calculator is fed or finalized, and
  both \<open>UpdateStats\<close> calculators are constructed with empty initial statistics.
\<close>

theorem shared_measure_counterexample:
  "mean_of ''raw'' \<in> sp_pre_measures (prepare_setup_pre_and_postprocessing example_proc_ops (V0_5 example_v5_stats_model)) \<and>
   mean_of ''raw'' \<in> sp_post_measures (prepare_setup_pre_and_postprocessing example_proc_ops (V0_5 example_v5_stats_model)) \<and>
   missing_dataset_stats {mean_of ''raw''} {mean_of ''raw''} (Some [(mean_of ''raw'', Scalar 5)]) = {} \<and>
   setup_pre_and_postprocessing example_proc_ops (V0_5 example_v5_stats_model) [example_sample] False
       (Some [(mean_of ''raw'', Scalar 5)]) =
     Inr ([AddKnownDatasetStats [(mean_of ''raw'', Scalar 5)],
           UpdateStats \<lparr>sc_measures = {mean_of ''raw''}, sc_initial_dataset_measures = Some [],
                        sc_updates = []\<rparr> False,
           Step ''raw'' (ProcDescr ''zero_mean_unit_variance'' [])],
          [AddKnownDatasetStats [(mean_of ''raw'', Scalar 5)],
           UpdateStats \<lparr>sc_measures = {mean_of ''raw''}, sc_initial_dataset_measures = Some [],
                        sc_updates = []\<rparr> False,
           Step ''mask'' (ProcDescr ''scale_mean_variance'' [(''reference_tensor'', ''raw'')])])"
  by (simp add: setup_eq prepare_setup_eq ex_simps)

text \<open>
  C3 (amended). When the operators before and after the model both require a measure
  \<open>m\<close> and the caller fixed no value for \<open>m\<close>: \<open>m\<close> is in the measure set of the
  one calculator of the initial pass, which is fed the samples of the dataset once each,
  in order, and finalized once; when \<^verbatim>\<open>finalize\<close> returns, both \<open>UpdateStats\<close>
  calculators are constructed with that one result, and when it raises, the call raises.
\<close>

theorem shared_measure_computed_once:
  assumes pre: "m \<in> sp_pre_measures (prepare_setup_pre_and_postprocessing ops model)"
    and post: "m \<in> sp_post_measures (prepare_setup_pre_and_postprocessing ops model)"
    and not_fixed: "fixed = None \<or> map_of (the fixed) m = None"
    and s: "s = prepare_setup_pre_and_postprocessing ops model"
    and calc: "calc = initial_stats_calc
                 (missing_dataset_stats (sp_pre_measures s) (sp_post_measures s) fixed) dataset"
  shows "m \<in> sc_measures calc \<and> sc_updates calc = dataset \<and>
         (\<forall>st. finalize ops calc = Inr st \<longrightarrow>
            setup_pre_and_postprocessing ops model dataset keep fixed =
              Inr (known_stats_ops fixed
                     @ UpdateStats (StatsCalculator (sp_pre_measures s) (Some st)) keep # sp_pre s,
                   known_stats_ops fixed
                     @ UpdateStats (StatsCalculator (sp_post_measures s) (Some st)) keep # sp_post s)) \<and>
         (\<forall>e. finalize ops calc = Inl e \<longrightarrow>
            setup_pre_and_postprocessing ops model dataset keep fixed = Inl (Raised e))"
proof -
  let ?missing = "missing_dataset_stats (sp_pre_measures s) (sp_post_measures s) fixed"
  have in_missing: "m \<in> ?missing"
    using pre post not_fixed s by (auto simp add: missing_dataset_stats_def split: option.splits)
  then have nonempty: "?missing \<noteq> {}" by blast
  have post_nonempty: "measures_of ops (assembled_post ops model) \<noteq> {}"
    using post by (auto simp add: prepare_setup_eq)
  have init: "initial_stats_of ops ?missing dataset = finalize ops calc"
    using nonempty calc by (simp add: initial_stats_of_def)
  have fields: "m \<in> sc_measures calc \<and> sc_updates calc = dataset"
    using in_missing calc by (simp add: initial_stats_calc_fields)
  have ok: "\<forall>st. finalize ops calc = Inr st \<longrightarrow>
            setup_pre_and_postprocessing ops model dataset keep fixed =
              Inr (known_stats_ops fixed
                     @ UpdateStats (StatsCalculator (sp_pre_measures s) (Some st)) keep # sp_pre s,
                   known_stats_ops fixed
                     @ UpdateStats (StatsCalculator (sp_post_measures s) (Some st)) keep # sp_post s)"
    using init post_nonempty s by (simp add: setup_eq prepare_setup_eq)
  have bad: "\<forall>e. finalize ops calc = Inl e \<longrightarrow>
            setup_pre_and_postprocessing ops model dataset keep fixed = Inl (Raised e)"
    using init s by (simp add: setup_eq prepare_setup_eq)
  from fields ok bad show ?thesis by blast
qed

theorem shared_measure_computed_once_witness:
  "mean_of ''raw'' \<in> sp_pre_measures (prepare_setup_pre_and_postprocessing example_proc_ops (V0_5 example_v5_stats_model)) \<and>
   mean_of ''raw'' \<in> sp_post_measures (prepare_setup_pre_and_postprocessing example_proc_ops (V0_5 example_v5_stats_model)) \<and>
   finalize example_proc_ops (initial_stats_calc {mean_of ''raw''} [example_sample, example_sample]) =
     Inr [(mean_of ''raw'', Scalar 2)] \<and>
   setup_pre_and_postprocessing example_proc_ops (V0_5 example_v5_stats_model)
       [example_sample, example_sample] False None =
     Inr ([UpdateStats \<lparr>sc_measures = {mean_of ''raw''},
                        sc_initial_dataset_measures = Some [(mean_of ''raw'', Scalar 2)],
                        sc_updates = []\<rparr> False,
           Step ''raw'' (ProcDescr ''zero_mean_unit_variance'' [])],
          [UpdateStats \<lparr>sc_measures = {mean_of ''raw''},
                        sc_initial_dataset_measures = Some [(mean_of ''raw'', Scalar 2)],
                        sc_updates = []\<rparr> False,
           Step ''mask'' (ProcDescr ''scale_mean_variance'' [(''reference_tensor'', ''raw'')])])"
  using shared_measure_computed_once [of "mean_of ''raw''" example_proc_ops "V0_5 example_v5_stats_model"
      None "prepare_setup_pre_and_postprocessing example_proc_ops (V0_5 example_v5_stats_model)"
      "initial_stats_calc {mean_of ''raw''} [example_sample, example_sample]"
      "[example_sample, example_sample]" False]
  by (simp add: prepare_setup_eq ex_simps)

lemma mean_of_eq: "(mean_of a = mean_of b) = (a = b)"
  by (simp add: mean_of_def)

lemma example_missing:
  "missing_dataset_stats {mean_of ''raw''} {mean_of ''mask''} (Some [(mean_of ''mask'', v)])
     = {mean_of ''raw''}"
  by (auto simp add: missing_dataset_stats_def mean_of_def)

lemmas two_stats_simps = assembled_pre_def assembled_post_def example_v5_two_stats_model_def
  v5_input_block_def v5_output_block_def measures_of_def initial_stats_of_def StatsCalculator_def
  known_stats_ops_def example_proc_ops_def example_required_measures_def initial_stats_calc_def
  sc_update_def example_missing mean_of_eq

text \<open>
  The mean of \<open>mask\<close> is required after the model and fixed by the caller, once to 5 and
  once to 7; the mean of \<open>raw\<close> is computed in the initial pass. In both runs the
  \<open>UpdateStats\<close> operator after the model holds the same calculator: it requires the
  mean of \<open>mask\<close>, and its initial statistics are the result of the initial pass, which
  has no value for it. The fixed value is in the \<open>AddKnownDatasetStats\<close> operator only,
  so what that calculator finalizes cannot be the supplied value in both runs.
\<close>

theorem fixed_stats_override_counterexample:
  "setup_pre_and_postprocessing example_proc_ops (V0_5 example_v5_two_stats_model) [example_sample] False
       (Some [(mean_of ''mask'', Scalar 5)]) =
     Inr ([AddKnownDatasetStats [(mean_of ''mask'', Scalar 5)],
           UpdateStats \<lparr>sc_measures = {mean_of ''raw''},
                        sc_initial_dataset_measures = Some [(mean_of ''raw'', Scalar 2)],
                        sc_updates = []\<rparr> False,
           Step ''raw'' (ProcDescr ''zero_mean_unit_variance'' [])],
          [AddKnownDatasetStats [(mean_of ''mask'', Scalar 5)],
           UpdateStats \<lparr>sc_measures = {mean_of ''mask''},
                        sc_initial_dataset_measures = Some [(mean_of ''raw'', Scalar 2)],
                        sc_updates = []\<rparr> False,
           Step ''mask'' (ProcDescr ''zero_mean_unit_variance'' [])]) \<and>
   setup_pre_and_postprocessing example_proc_ops (V0_5 example_v5_two_stats_model) [example_sample] False
       (Some [(mean_of ''mask'', Scalar 7)]) =
     Inr ([AddKnownDatasetStats [(mean_of ''mask'', Scalar 7)],
           UpdateStats \<lparr>sc_measures = {mean_of ''raw''},
                        sc_initial_dataset_measures = Some [(mean_of ''raw'', Scalar 2)],
                        sc_updates = []\<rparr> False,
           Step ''raw'' (ProcDescr ''zero_mean_unit_variance'' [])],
          [AddKnownDatasetStats [(mean_of ''mask'', Scalar 7)],
           UpdateStats \<lparr>sc_measures = {mean_of ''mask''},
                        sc_initial_dataset_measures = Some [(mean_of ''raw'', Scalar 2)],
                        sc_updates = []\<rparr> False,
           Step ''mask'' (ProcDescr ''zero_mean_unit_variance'' [])]) \<and>
   mean_of ''mask'' \<in> sc_measures \<lparr>sc_measures = {mean_of ''mask''},
                        sc_initial_dataset_measures = Some [(mean_of ''raw'', Scalar 2)],
                        sc_updates = []\<rparr> \<and>
   map_of [(mean_of ''raw'', Scalar 2)] (mean_of ''mask'') = None \<and>
   Scalar 5 \<noteq> Scalar 7"
  by (simp add: setup_eq two_stats_simps)

text \<open>
  C5 (amended). A measure \<open>m\<close> with a fixed value in \<^verbatim>\<open>fixed_dataset_stats\<close> is not
  in the measure set of the calculator of the initial pass, which is the calculator that is
  fed the samples of the dataset; when every required measure is fixed there is no initial
  pass at all. The fixed values are given to no calculator: the \<open>UpdateStats\<close>
  calculators are constructed from the unfiltered measure sets of their direction (so they
  still require \<open>m\<close> when the direction does), from the result of the initial pass, and
  without any sample, and they are the same for every mapping that fixes the same
  measures. The caller's mapping is handed unchanged to the \<open>AddKnownDatasetStats\<close>
  operator at the head of both lists, before \<open>UpdateStats\<close>.
\<close>

theorem fixed_stats_override:
  assumes fixed: "map_of f m = Some v"
    and s: "s = prepare_setup_pre_and_postprocessing ops model"
    and missing: "missing = missing_dataset_stats (sp_pre_measures s) (sp_post_measures s) (Some f)"
    and calc: "calc = initial_stats_calc missing dataset"
    and pre_tail: "pre_tail = (\<lambda>st. UpdateStats (StatsCalculator (sp_pre_measures s) (Some st)) keep # sp_pre s)"
    and post_tail: "post_tail = (\<lambda>st. (if sp_post_measures s \<noteq> {}
                       then [UpdateStats (StatsCalculator (sp_post_measures s) (Some st)) keep]
                       else []) @ sp_post s)"
  shows "m \<notin> missing \<and> m \<notin> sc_measures calc \<and> sc_updates calc = dataset \<and>
         initial_stats_of ops missing dataset = (if missing \<noteq> {} then finalize ops calc else Inr []) \<and>
         (\<forall>f'. (\<forall>k. (map_of f' k = None) = (map_of f k = None)) \<longrightarrow>
            setup_pre_and_postprocessing ops model dataset keep (Some f') =
              (case initial_stats_of ops missing dataset of
                 Inl e \<Rightarrow> Inl (Raised e)
               | Inr st \<Rightarrow> Inr (AddKnownDatasetStats f' # pre_tail st,
                                AddKnownDatasetStats f' # post_tail st))) \<and>
         (\<forall>pm st. sc_measures (StatsCalculator pm (Some st)) = pm \<and>
                  sc_initial_dataset_measures (StatsCalculator pm (Some st)) = Some st \<and>
                  sc_updates (StatsCalculator pm (Some st)) = [])"
proof -
  have not_missing: "m \<notin> missing"
    using fixed missing by (simp add: missing_dataset_stats_def)
  have fields: "m \<notin> sc_measures calc \<and> sc_updates calc = dataset"
    using not_missing calc by (simp add: initial_stats_calc_fields)
  have init: "initial_stats_of ops missing dataset
                = (if missing \<noteq> {} then finalize ops calc else Inr [])"
    by (simp add: initial_stats_of_def calc)
  have same: "setup_pre_and_postprocessing ops model dataset keep (Some f') =
              (case initial_stats_of ops missing dataset of
                 Inl e \<Rightarrow> Inl (Raised e)
               | Inr st \<Rightarrow> Inr (AddKnownDatasetStats f' # pre_tail st,
                                AddKnownDatasetStats f' # post_tail st))"
    if keys: "\<forall>k. (map_of f' k = None) = (map_of f k = None)" for f'
  proof -
    have "map_of f' m \<noteq> None" using keys fixed by simp
    then have ne: "f' \<noteq> []" by auto
    have "missing_dataset_stats (sp_pre_measures s) (sp_post_measures s) (Some f') = missing"
      using keys missing by (simp add: missing_dataset_stats_def)
    then show ?thesis
      using s ne pre_tail post_tail
      by (simp add: setup_eq prepare_setup_eq known_stats_ops_def split: sum.splits)
  qed
  have built: "\<forall>pm st. sc_measures (StatsCalculator pm (Some st)) = pm \<and>
                  sc_initial_dataset_measures (StatsCalculator pm (Some st)) = Some st \<and>
                  sc_updates (StatsCalculator pm (Some st)) = []"
    by (simp add: StatsCalculator_def)
  from not_missing fields init same built show ?thesis by blast
qed

text \<open>
  The mean of \<open>mask\<close> fixed to 5 and the mean of \<open>raw\<close> left to the initial pass over
  one sample.
\<close>

theorem fixed_stats_override_witness:
  "map_of [(mean_of ''mask'', Scalar 5)] (mean_of ''mask'') = Some (Scalar 5) \<and>
   mean_of ''mask'' \<notin> missing_dataset_stats {mean_of ''raw''} {mean_of ''mask''}
                          (Some [(mean_of ''mask'', Scalar 5)]) \<and>
   missing_dataset_stats {mean_of ''raw''} {mean_of ''mask''} (Some [(mean_of ''mask'', Scalar 5)])
     = {mean_of ''raw''} \<and>
   initial_stats_calc {mean_of ''raw''} [example_sample] =
     \<lparr>sc_measures = {mean_of ''raw''}, sc_initial_dataset_measures = None,
      sc_updates = [example_sample]\<rparr> \<and>
   finalize example_proc_ops (initial_stats_calc {mean_of ''raw''} [example_sample])
     = Inr [(mean_of ''raw'', Scalar 2)] \<and>
   setup_pre_and_postprocessing example_proc_ops (V0_5 example_v5_two_stats_model) [example_sample] False
       (Some [(mean_of ''mask'', Scalar 5)]) =
     Inr ([AddKnownDatasetStats [(mean_of ''mask'', Scalar 5)],
           UpdateStats \<lparr>sc_measures = {mean_of ''raw''},
                        sc_initial_dataset_measures = Some [(mean_of ''raw'', Scalar 2)],
                        sc_updates = []\<rparr> False,
           Step ''raw'' (ProcDescr ''zero_mean_unit_variance'' [])],
          [AddKnownDatasetStats [(mean_of ''mask'', Scalar 5)],
           UpdateStats \<lparr>sc_measures = {mean_of ''mask''},
                        sc_initial_dataset_measures = Some [(mean_of ''raw'', Scalar 2)],
                        sc_updates = []\<rparr> False,
           Step ''mask'' (ProcDescr ''zero_mean_unit_variance'' [])])"
proof -
  let ?s = "prepare_setup_pre_and_postprocessing example_proc_ops (V0_5 example_v5_two_stats_model)"
  let ?f = "[(mean_of ''mask'', Scalar 5)]"
  have fixed: "map_of ?f (mean_of ''mask'') = Some (Scalar 5)" by simp
  have pre: "sp_pre_measures ?s = {mean_of ''raw''}"
    by (simp add: prepare_setup_eq two_stats_simps)
  have post: "sp_post_measures ?s = {mean_of ''mask''}"
    by (simp add: prepare_setup_eq two_stats_simps)
  have excluded: "mean_of ''mask'' \<notin> missing_dataset_stats {mean_of ''raw''} {mean_of ''mask''} (Some ?f)"
    using fixed_stats_override [where f = ?f and m = "mean_of ''mask''" and ops = example_proc_ops
        and model = "V0_5 example_v5_two_stats_model" and dataset = "[example_sample]" and keep = False,
        OF fixed refl refl refl refl refl]
    unfolding pre post by blast
  have miss: "missing_dataset_stats {mean_of ''raw''} {mean_of ''mask''} (Some ?f) = {mean_of ''raw''}"
    by (rule example_missing)
  have calc: "initial_stats_calc {mean_of ''raw''} [example_sample] =
     \<lparr>sc_measures = {mean_of ''raw''}, sc_initial_dataset_measures = None,
      sc_updates = [example_sample]\<rparr>"
    by (simp add: initial_stats_calc_def StatsCalculator_def sc_update_def)
  have fin: "finalize example_proc_ops (initial_stats_calc {mean_of ''raw''} [example_sample])
     = Inr [(mean_of ''raw'', Scalar 2)]"
    unfolding calc by (simp add: example_proc_ops_def)
  have lists: "setup_pre_and_postprocessing example_proc_ops (V0_5 example_v5_two_stats_model)
       [example_sample] False (Some ?f) =
     Inr ([AddKnownDatasetStats ?f,
           UpdateStats \<lparr>sc_measures = {mean_of ''raw''},
                        sc_initial_dataset_measures = Some [(mean_of ''raw'', Scalar 2)],
                        sc_updates = []\<rparr> False,
           Step ''raw'' (ProcDescr ''zero_mean_unit_variance'' [])],
          [AddKnownDatasetStats ?f,
           UpdateStats \<lparr>sc_measures = {mean_of ''mask''},
                        sc_initial_dataset_measures = Some [(mean_of ''raw'', Scalar 2)],
                        sc_updates = []\<rparr> False,
           Step ''mask'' (ProcDescr ''zero_mean_unit_variance'' [])])"
    by (simp add: setup_eq two_stats_simps)
  from fixed excluded miss calc fin lists show ?thesis by blast
qed

section \<open>Properties of the tests\<close>

lemma vs_details_add_detail: "vs_details (add_detail s d) = vs_details s @ [d]"
  by (simp add: add_detail_def)

lemma param_keeps_details:
  "set (vs_details s) \<subseteq> set (vs_details (test_model_inference_with_parametrized_inputs env m wfmt devices s))"
  by (auto simp add: test_model_inference_with_parametrized_inputs_def vs_details_add_detail)

lemma run_tests_inference_detail:
  assumes "rd_body rd = ModelDescr model"
  shows "reproduce_detail wfmt (error_and_tb (inference_try_block env model wfmt devices decimal))
           \<in> set (vs_details (rd_validation_summary (run_tests env rd wfmt devices decimal et)))"
proof -
  have body: "rd_body (case et of None \<Rightarrow> rd1 | Some t \<Rightarrow> test_expected_resource_type rd1 t) = rd_body rd1"
    for rd1
    by (cases et) (simp_all add: test_expected_resource_type_def Let_def)
  show ?thesis
  proof (cases model)
    case (V0_4 m)
    then show ?thesis using assms
      by (simp add: run_tests_def Let_def body test_model_inference_def vs_details_add_detail)
  next
    case (V0_5 m)
    have "reproduce_detail wfmt (error_and_tb (inference_try_block env model wfmt devices decimal))
            \<in> set (vs_details (test_model_inference env model wfmt devices decimal S))" for S
      by (simp add: test_model_inference_def vs_details_add_detail)
    then have "reproduce_detail wfmt (error_and_tb (inference_try_block env model wfmt devices decimal))
            \<in> set (vs_details (test_model_inference_with_parametrized_inputs env m wfmt devices
                     (test_model_inference env model wfmt devices decimal S)))" for S
      using param_keeps_details by blast
    then show ?thesis using assms V0_5
      by (simp add: run_tests_def Let_def body)
  qed
qed

lemma compare_outputs_raises:
  assumes "\<forall>p \<in> set before. \<forall>e'. assert_array_almost_equal env (fst p) (snd p) decimal \<noteq> CmpRaised e'"
    and "assert_array_almost_equal env res expd decimal = CmpRaised e"
  shows "compare_outputs env decimal err (before @ (res, expd) # rest) = Inl e"
  using assms
proof (induction before arbitrary: err)
  case Nil
  then show ?case by simp
next
  case (Cons p before)
  obtain r x where p: "p = (r, x)" by (cases p)
  show ?case
  proof (cases "assert_array_almost_equal env r x decimal")
    case CmpPass
    then show ?thesis using Cons p by simp
  next
    case (CmpAssertionError s)
    then show ?thesis using Cons p by simp
  next
    case (CmpRaised e')
    then show ?thesis using Cons.prems p by simp
  qed
qed

text \<open>
  C1. When the source resolves to a model description, \<^verbatim>\<open>load_description_and_test\<close>
  and \<^verbatim>\<open>test_description\<close> return, and the summary holds the detail of the inference
  test. When an exception reaches the \<^verbatim>\<open>except\<close> clause, that detail has status
  \<^verbatim>\<open>failed\<close> and one error entry with the exception's message and formatted
  traceback. That is where the exceptions of every stage arrive: of loading the test
  tensors, of constructing the pipeline, of \<^verbatim>\<open>forward\<close>, of leaving the pipeline's
  scope, and of the comparison of an output (other than its AssertionError).
\<close>

theorem testing_never_propagates:
  assumes resolved: "resolve_description env source format_version = Inr rd"
    and model: "rd_body rd = ModelDescr model"
    and outcome: "outcome = inference_try_block env model wfmt devices decimal"
  shows "(\<exists>rd'. load_description_and_test env source format_version wfmt devices decimal et = Inr rd' \<and>
            test_description env source format_version wfmt devices decimal et
              = Inr (rd_validation_summary rd') \<and>
            reproduce_detail wfmt (error_and_tb outcome) \<in> set (vs_details (rd_validation_summary rd'))) \<and>
         (\<forall>e. outcome = Inl e \<longrightarrow>
            reproduce_detail wfmt (error_and_tb outcome) =
              \<lparr>vd_name = ''Reproduce test outputs from test inputs'', vd_status = ''failed'',
               vd_errors = [\<lparr>ee_loc = (case wfmt of None \<Rightarrow> [''weights''] | Some w \<Rightarrow> [''weights'', w]),
                             ee_msg = exn_str e, ee_type = ''bioimageio.core'',
                             ee_traceback = exn_format_tb e\<rparr>]\<rparr>) \<and>
         (\<forall>e. load_test_tensors env model = Inl e \<longrightarrow> outcome = Inl e) \<and>
         (\<forall>e inputs expected.
            load_test_tensors env model = Inr (inputs, expected) \<and>
            create_prediction_pipeline env model devices wfmt = Inl e \<longrightarrow> outcome = Inl e) \<and>
         (\<forall>e inputs expected pp.
            load_test_tensors env model = Inr (inputs, expected) \<and>
            create_prediction_pipeline env model devices wfmt = Inr pp \<and>
            forward pp inputs = Inl e \<and> pp_exit pp = None \<longrightarrow> outcome = Inl e) \<and>
         (\<forall>e inputs expected pp.
            load_test_tensors env model = Inr (inputs, expected) \<and>
            create_prediction_pipeline env model devices wfmt = Inr pp \<and>
            pp_exit pp = Some e \<longrightarrow> outcome = Inl e) \<and>
         (\<forall>e inputs expected pp results before res expd rest.
            load_test_tensors env model = Inr (inputs, expected) \<and>
            create_prediction_pipeline env model devices wfmt = Inr pp \<and>
            forward pp inputs = Inr results \<and> pp_exit pp = None \<and>
            length results = length expected \<and>
            zip results expected = before @ (res, expd) # rest \<and>
            (\<forall>p \<in> set before. \<forall>e'. assert_array_almost_equal env (fst p) (snd p) decimal \<noteq> CmpRaised e') \<and>
            assert_array_almost_equal env res expd decimal = CmpRaised e \<longrightarrow> outcome = Inl e)"
proof -
  let ?rd' = "run_tests env rd wfmt devices decimal et"
  have ret: "load_description_and_test env source format_version wfmt devices decimal et = Inr ?rd'"
    using resolved by (simp add: load_description_and_test_def)
  then have sum: "test_description env source format_version wfmt devices decimal et
              = Inr (rd_validation_summary ?rd')"
    by (simp add: test_description_def)
  have det: "reproduce_detail wfmt (error_and_tb outcome) \<in> set (vs_details (rd_validation_summary ?rd'))"
    unfolding outcome using model by (rule run_tests_inference_detail)
  from ret sum det have part1:
    "\<exists>rd'. load_description_and_test env source format_version wfmt devices decimal et = Inr rd' \<and>
            test_description env source format_version wfmt devices decimal et
              = Inr (rd_validation_summary rd') \<and>
            reproduce_detail wfmt (error_and_tb outcome) \<in> set (vs_details (rd_validation_summary rd'))"
    by blast
  have part2: "\<forall>e. outcome = Inl e \<longrightarrow>
            reproduce_detail wfmt (error_and_tb outcome) =
              \<lparr>vd_name = ''Reproduce test outputs from test inputs'', vd_status = ''failed'',
               vd_errors = [\<lparr>ee_loc = (case wfmt of None \<Rightarrow> [''weights''] | Some w \<Rightarrow> [''weights'', w]),
                             ee_msg = exn_str e, ee_type = ''bioimageio.core'',
                             ee_traceback = exn_format_tb e\<rparr>]\<rparr>"
    by (auto simp add: reproduce_detail_def)
  have s1: "\<forall>e. load_test_tensors env model = Inl e \<longrightarrow> outcome = Inl e"
    by (simp add: outcome inference_try_block_def)
  have s2: "\<forall>e inputs expected.
            load_test_tensors env model = Inr (inputs, expected) \<and>
            create_prediction_pipeline env model devices wfmt = Inl e \<longrightarrow> outcome = Inl e"
    by (simp add: outcome inference_try_block_def)
  have s3: "\<forall>e inputs expected pp.
            load_test_tensors env model = Inr (inputs, expected) \<and>
            create_prediction_pipeline env model devices wfmt = Inr pp \<and>
            forward pp inputs = Inl e \<and> pp_exit pp = None \<longrightarrow> outcome = Inl e"
    by (simp add: outcome inference_try_block_def leave_def)
  have s4: "\<forall>e inputs expected pp.
            load_test_tensors env model = Inr (inputs, expected) \<and>
            create_prediction_pipeline env model devices wfmt = Inr pp \<and>
            pp_exit pp = Some e \<longrightarrow> outcome = Inl e"
    by (simp add: outcome inference_try_block_def leave_def)
  have s5: "\<forall>e inputs expected pp results before res expd rest.
            load_test_tensors env model = Inr (inputs, expected) \<and>
            create_prediction_pipeline env model devices wfmt = Inr pp \<and>
            forward pp inputs = Inr results \<and> pp_exit pp = None \<and>
            length results = length expected \<and>
            zip results expected = before @ (res, expd) # rest \<and>
            (\<forall>p \<in> set before. \<forall>e'. assert_array_almost_equal env (fst p) (snd p) decimal \<noteq> CmpRaised e') \<and>
            assert_array_almost_equal env res expd decimal = CmpRaised e \<longrightarrow> outcome = Inl e"
    by (auto simp add: outcome inference_try_block_def leave_def compare_outputs_raises)
  from part1 part2 s1 s2 s3 s4 s5 show ?thesis by blast
qed

lemmas test_simps = example_test_env_def example_failing_env_def example_two_output_env_def
  example_rd_def example_v5_model_def example_pipeline_def example_two_output_pipeline_def
  resolve_description_def run_tests_def load_description_and_test_def test_description_def
  test_model_inference_def test_model_inference_with_parametrized_inputs_def
  inference_try_block_def parametrized_try_block_def load_test_tensors_def load_test_inputs_def
  load_expected_def load_v5_tensor_def leave_def reproduce_detail_def add_detail_def
  has_parameterized_input_def test_expected_resource_type_def count_mismatch_msg_def
  digit_char_def Let_def

text \<open>A test run in which loading the test tensors raises.\<close>

theorem testing_never_propagates_witness:
  "resolve_description example_failing_env (SourceDescr example_rd) ''discover'' = Inr example_rd \<and>
   rd_body example_rd = ModelDescr (V0_5 example_v5_model) \<and>
   inference_try_block example_failing_env (V0_5 example_v5_model) None None 4 =
     Inl (Exn ''FileNotFoundError'' ''No such file'' [''File io_utils.py, in load_array'']) \<and>
   test_description example_failing_env (SourceDescr example_rd) ''discover'' None None 4 None =
     Inr \<lparr>vs_details =
            [\<lparr>vd_name = ''Reproduce test outputs from test inputs'', vd_status = ''failed'',
              vd_errors = [\<lparr>ee_loc = [''weights''], ee_msg = ''No such file'',
                            ee_type = ''bioimageio.core'',
                            ee_traceback = [''File io_utils.py, in load_array'']\<rparr>]\<rparr>,
             \<lparr>vd_name = ''Reproduce test outputs from test inputs'', vd_status = ''failed'',
              vd_errors = [\<lparr>ee_loc = [''weights''], ee_msg = ''No such file'',
                            ee_type = ''bioimageio.core'',
                            ee_traceback = [''File io_utils.py, in load_array'']\<rparr>]\<rparr>],
          vs_env = [\<lparr>ip_name = ''bioimageio.core'', ip_version = ''0.5.0''\<rparr>]\<rparr>"
  using testing_never_propagates [of example_failing_env "SourceDescr example_rd" "''discover''"
      example_rd "V0_5 example_v5_model"
      "inference_try_block example_failing_env (V0_5 example_v5_model) None None 4" None None 4 None]
  by (simp add: test_simps)

lemma load_test_tensors_cmp_update:
  "load_test_tensors (env\<lparr>assert_array_almost_equal := c\<rparr>) model = load_test_tensors env model"
proof -
  have v4: "load_v4_tensor (env\<lparr>assert_array_almost_equal := c\<rparr>) = load_v4_tensor env"
    by (rule ext) (simp add: load_v4_tensor_def split: sum.splits)
  have v5: "load_v5_tensor (env\<lparr>assert_array_almost_equal := c\<rparr>) = load_v5_tensor env"
    by (rule ext) (simp add: load_v5_tensor_def split: sum.splits)
  have ins: "load_test_inputs (env\<lparr>assert_array_almost_equal := c\<rparr>) model = load_test_inputs env model"
    by (cases model) (simp_all add: load_test_inputs_def v4 v5)
  have outs: "load_expected (env\<lparr>assert_array_almost_equal := c\<rparr>) model = load_expected env model"
    by (cases model) (simp_all add: load_expected_def v4 v5)
  show ?thesis
    by (simp add: load_test_tensors_def ins outs split: sum.splits)
qed

lemma count_mismatch_try_block:
  assumes "load_test_tensors env model = Inr (inputs, expected)"
    and "create_prediction_pipeline env model devices wfmt = Inr pp"
    and "forward pp inputs = Inr results"
    and "pp_exit pp = None"
    and "length results \<noteq> length expected"
  shows "inference_try_block env model wfmt devices decimal =
           Inr (Some (count_mismatch_msg (length expected) (length results)))"
  using assms by (simp add: inference_try_block_def leave_def)

text \<open>
  C6. When the pipeline returns a number of outputs that differs from the number of
  expected outputs, \<^verbatim>\<open>_test_model_inference\<close> adds a failed detail whose message is
  \<^verbatim>\<open>Expected {n} outputs, but got {m}\<close> with an empty traceback; the detail is the
  same whatever the comparison function does, so no output is compared; and the detail is
  in the summary the entry point returns.
\<close>

theorem output_count_mismatch_reported:
  assumes loaded: "load_test_tensors env model = Inr (inputs, expected)"
    and created: "create_prediction_pipeline env model devices wfmt = Inr pp"
    and forwarded: "forward pp inputs = Inr results"
    and left: "pp_exit pp = None"
    and mismatch: "length results \<noteq> length expected"
    and detail: "detail =
       \<lparr>vd_name = ''Reproduce test outputs from test inputs'', vd_status = ''failed'',
        vd_errors = [\<lparr>ee_loc = (case wfmt of None \<Rightarrow> [''weights''] | Some w \<Rightarrow> [''weights'', w]),
                      ee_msg = ''Expected '' @ str_nat (length expected) @ '' outputs, but got ''
                                 @ str_nat (length results),
                      ee_type = ''bioimageio.core'', ee_traceback = []\<rparr>]\<rparr>"
  shows "test_model_inference env model wfmt devices decimal summary = add_detail summary detail \<and>
         (\<forall>cmp. test_model_inference (env\<lparr>assert_array_almost_equal := cmp\<rparr>) model wfmt devices
                   decimal summary = add_detail summary detail) \<and>
         (\<forall>rd et. rd_body rd = ModelDescr model \<longrightarrow>
            detail \<in> set (vs_details (rd_validation_summary (run_tests env rd wfmt devices decimal et))))"
proof -
  have block: "inference_try_block env model wfmt devices decimal =
           Inr (Some (count_mismatch_msg (length expected) (length results)))"
    using loaded created forwarded left mismatch by (rule count_mismatch_try_block)
  have det: "reproduce_detail wfmt (error_and_tb (inference_try_block env model wfmt devices decimal))
               = detail"
    by (simp add: block detail reproduce_detail_def count_mismatch_msg_def)
  have here: "test_model_inference env model wfmt devices decimal summary = add_detail summary detail"
    by (simp add: test_model_inference_def det)
  have block': "inference_try_block (env\<lparr>assert_array_almost_equal := cmp\<rparr>) model wfmt devices decimal
           = Inr (Some (count_mismatch_msg (length expected) (length results)))" for cmp
    using loaded created forwarded left mismatch
    by (intro count_mismatch_try_block [where inputs = inputs and pp = pp])
       (simp_all add: load_test_tensors_cmp_update)
  have any_cmp: "\<forall>cmp. test_model_inference (env\<lparr>assert_array_almost_equal := cmp\<rparr>) model wfmt devices
                   decimal summary = add_detail summary detail"
    by (simp add: test_model_inference_def block' detail reproduce_detail_def count_mismatch_msg_def)
  have entry: "\<forall>rd et. rd_body rd = ModelDescr model \<longrightarrow>
            detail \<in> set (vs_details (rd_validation_summary (run_tests env rd wfmt devices decimal et)))"
    using run_tests_inference_detail [of _ model wfmt env devices decimal] det by metis
  from here any_cmp entry show ?thesis by blast
qed

text \<open>A pipeline that returns two outputs where one is expected.\<close>

theorem output_count_mismatch_reported_witness:
  "load_test_tensors example_two_output_env (V0_5 example_v5_model) =
     Inr ([Tensor (NDArray [1, 2] [7, 9]) [''b'', ''x'']], [Tensor (NDArray [1, 2] [7, 9]) [''b'', ''x'']]) \<and>
   forward example_two_output_pipeline [Tensor (NDArray [1, 2] [7, 9]) [''b'', ''x'']] =
     Inr [Tensor (NDArray [1, 2] [7, 9]) [''b'', ''x''], Tensor (NDArray [1, 2] [7, 9]) [''b'', ''x'']] \<and>
   test_model_inference example_two_output_env (V0_5 example_v5_model) (Some ''onnx'') None 4
       \<lparr>vs_details = [], vs_env = []\<rparr> =
     \<lparr>vs_details =
        [\<lparr>vd_name = ''Reproduce test outputs from test inputs'', vd_status = ''failed'',
          vd_errors = [\<lparr>ee_loc = [''weights'', ''onnx''], ee_msg = ''Expected 1 outputs, but got 2'',
                        ee_type = ''bioimageio.core'', ee_traceback = []\<rparr>]\<rparr>],
      vs_env = []\<rparr>"
  using output_count_mismatch_reported [of example_two_output_env "V0_5 example_v5_model"
      "[Tensor (NDArray [1, 2] [7, 9]) [''b'', ''x'']]" "[Tensor (NDArray [1, 2] [7, 9]) [''b'', ''x'']]"
      None "Some ''onnx''" example_two_output_pipeline
      "[Tensor (NDArray [1, 2] [7, 9]) [''b'', ''x''], Tensor (NDArray [1, 2] [7, 9]) [''b'', ''x'']]"
      _ 4 "\<lparr>vs_details = [], vs_env = []\<rparr>"]
  by (simp add: test_simps)

lemma check_shapes_truthy: "is_truthy err \<Longrightarrow> is_truthy (check_shapes env n exps err zs)"
proof (induction zs arbitrary: err)
  case Nil
  then show ?case by simp
next
  case (Cons p zs)
  obtain r x where p: "p = (r, x)" by (cases p)
  show ?case using Cons p by simp
qed

lemma check_shapes_match:
  "list_all (\<lambda>p. nd_shape (t_data (fst p)) = snd p) zs \<Longrightarrow> check_shapes env n exps err zs = err"
proof (induction zs arbitrary: err)
  case Nil
  then show ?case by simp
next
  case (Cons p zs)
  obtain r x where p: "p = (r, x)" by (cases p)
  show ?case using Cons p by simp
qed

lemma check_shapes_mismatch:
  "\<not> list_all (\<lambda>p. nd_shape (t_data (fst p)) = snd p) zs \<Longrightarrow>
   is_truthy (check_shapes env n exps err zs)"
proof (induction zs arbitrary: err)
  case Nil
  then show ?case by simp
next
  case (Cons p zs)
  obtain r x where p: "p = (r, x)" by (cases p)
  show ?case
  proof (cases "nd_shape (t_data r) = x")
    case True
    then show ?thesis using Cons p by simp
  next
    case False
    then show ?thesis using p by (simp add: check_shapes_truthy)
  qed
qed

lemma zip_shapes:
  "length results = length exps \<Longrightarrow>
   list_all (\<lambda>p. nd_shape (t_data (fst p)) = snd p) (zip results exps)
     = (map (\<lambda>r. nd_shape (t_data r)) results = exps)"
  by (induction results exps rule: list_induct2) auto

lemma count_mismatch_msg_nonempty: "count_mismatch_msg a b \<noteq> []"
  by (simp add: count_mismatch_msg_def)

text \<open>One step of the loop, from \<open>error = None\<close>.\<close>

lemma step_error_ok:
  assumes "map (\<lambda>r. nd_shape (t_data r)) results = exps"
  shows "(if length results \<noteq> length exps
          then Some (or_empty None @ count_mismatch_msg (length exps) (length results))
          else check_shapes env n exps None (zip results exps)) = None"
proof -
  have len: "length results = length exps" using assms by (metis length_map)
  have "list_all (\<lambda>p. nd_shape (t_data (fst p)) = snd p) (zip results exps)"
    using assms len zip_shapes by blast
  then have "check_shapes env n exps None (zip results exps) = None"
    by (rule check_shapes_match)
  then show ?thesis using len by simp
qed

lemma step_error_bad:
  assumes "map (\<lambda>r. nd_shape (t_data r)) results \<noteq> exps"
  shows "is_truthy (if length results \<noteq> length exps
          then Some (or_empty None @ count_mismatch_msg (length exps) (length results))
          else check_shapes env n exps None (zip results exps))"
proof (cases "length results = length exps")
  case True
  then have "\<not> list_all (\<lambda>p. nd_shape (t_data (fst p)) = snd p) (zip results exps)"
    using assms zip_shapes by blast
  then have "is_truthy (check_shapes env n exps None (zip results exps))"
    by (rule check_shapes_mismatch)
  then show ?thesis using True by simp
next
  case False
  then show ?thesis by (simp add: count_mismatch_msg_nonempty)
qed

lemma case_ok_cases:
  assumes "case_ok env m pp ti n"
  obtains inputs exps results where
    "test_case env m ti n = Inr (inputs, exps)" and
    "forward pp inputs = Inr results" and
    "map (\<lambda>r. nd_shape (t_data r)) results = exps"
proof (cases "test_case env m ti n")
  case (Inl e)
  then show ?thesis using assms by (simp add: case_ok_def)
next
  case (Inr c)
  obtain inputs exps where c: "c = (inputs, exps)" by (cases c)
  show ?thesis
  proof (cases "forward pp inputs")
    case (Inl e)
    then show ?thesis using assms Inr c by (simp add: case_ok_def)
  next
    case fw: (Inr results)
    then have "map (\<lambda>r. nd_shape (t_data r)) results = exps"
      using assms Inr c by (simp add: case_ok_def)
    then show ?thesis using that Inr c fw by blast
  qed
qed

lemma run_cases_all_ok:
  "\<forall>n \<in> set ns. case_ok env m pp ti n \<Longrightarrow> run_cases env m pp ti None ns = (Inr None, ns)"
proof (induction ns)
  case Nil
  then show ?case by simp
next
  case (Cons n ns)
  from Cons.prems have ok: "case_ok env m pp ti n" by simp
  from ok obtain inputs exps results where
    tc: "test_case env m ti n = Inr (inputs, exps)" and
    fw: "forward pp inputs = Inr results" and
    sh: "map (\<lambda>r. nd_shape (t_data r)) results = exps"
    by (rule case_ok_cases)
  have rest: "run_cases env m pp ti None ns = (Inr None, ns)" using Cons by simp
  show ?case
    using tc fw rest step_error_ok [OF sh, of env n] by (simp add: Let_def)
qed

lemma truthy_not_None: "is_truthy e \<Longrightarrow> e \<noteq> None"
  by (cases e) auto

lemma run_cases_stop:
  assumes "\<forall>j \<in> set before. case_ok env m pp ti j" and "\<not> case_ok env m pp ti n"
  shows "snd (run_cases env m pp ti None (before @ n # rest))
           = before @ (if isl (test_case env m ti n) then [] else [n]) \<and>
         fst (run_cases env m pp ti None (before @ n # rest)) \<noteq> Inr None"
  using assms(1)
proof (induction before)
  case Nil
  show ?case
  proof (cases "test_case env m ti n")
    case (Inl e)
    then show ?thesis by simp
  next
    case (Inr c)
    obtain inputs exps where c: "c = (inputs, exps)" by (cases c)
    show ?thesis
    proof (cases "forward pp inputs")
      case (Inl e)
      then show ?thesis using Inr c by simp
    next
      case fw: (Inr results)
      let ?error1 = "if length results \<noteq> length exps
          then Some (or_empty None @ count_mismatch_msg (length exps) (length results))
          else check_shapes env n exps None (zip results exps)"
      have "map (\<lambda>r. nd_shape (t_data r)) results \<noteq> exps"
        using assms(2) Inr c fw by (simp add: case_ok_def)
      then have t: "is_truthy ?error1" by (rule step_error_bad)
      then have nn: "?error1 \<noteq> None" by (rule truthy_not_None)
      have "run_cases env m pp ti None (n # rest) = (Inr ?error1, [n])"
        using Inr c fw t by (simp add: Let_def)
      then show ?thesis using nn Inr by simp
    qed
  qed
next
  case (Cons j before)
  from Cons.prems have ok: "case_ok env m pp ti j" by simp
  from ok obtain inputs exps results where
    tc: "test_case env m ti j = Inr (inputs, exps)" and
    fw: "forward pp inputs = Inr results" and
    sh: "map (\<lambda>r. nd_shape (t_data r)) results = exps"
    by (rule case_ok_cases)
  have ih: "snd (run_cases env m pp ti None (before @ n # rest))
           = before @ (if isl (test_case env m ti n) then [] else [n]) \<and>
         fst (run_cases env m pp ti None (before @ n # rest)) \<noteq> Inr None"
    using Cons by simp
  have step: "run_cases env m pp ti None (j # xs)
                = (fst (run_cases env m pp ti None xs), j # snd (run_cases env m pp ti None xs))" for xs
    using tc fw step_error_ok [OF sh, of env j] by (simp add: Let_def split: prod.splits)
  show ?case using ih by (simp add: step del: run_cases.simps)
qed

lemma run_cases_prefix: "\<exists>k. snd (run_cases env m pp ti err ns) = take k ns"
proof (induction ns arbitrary: err)
  case Nil
  then show ?case by simp
next
  case (Cons n ns)
  have zero: "\<exists>k. [] = take k (n # ns)" by (rule exI [of _ 0]) simp
  have one: "\<exists>k. [n] = take k (n # ns)" by (rule exI [of _ 1]) simp
  have more: "\<exists>k. n # snd (run_cases env m pp ti e ns) = take k (n # ns)" for e
  proof -
    from Cons [of e] obtain k where "snd (run_cases env m pp ti e ns) = take k ns" by blast
    then have "n # snd (run_cases env m pp ti e ns) = take (Suc k) (n # ns)" by simp
    then show ?thesis by blast
  qed
  show ?case
  proof (cases "test_case env m ti n")
    case (Inl e)
    then show ?thesis using zero by simp
  next
    case (Inr c)
    obtain inputs exps where c: "c = (inputs, exps)" by (cases c)
    show ?thesis
    proof (cases "forward pp inputs")
      case (Inl e)
      then show ?thesis using Inr c one by simp
    next
      case fw: (Inr results)
      let ?error1 = "if length results \<noteq> length exps
          then Some (or_empty err @ count_mismatch_msg (length exps) (length results))
          else check_shapes env n exps err (zip results exps)"
      show ?thesis
      proof (cases "is_truthy ?error1")
        case True
        then have "run_cases env m pp ti err (n # ns) = (Inr ?error1, [n])"
          using Inr c fw by (simp add: Let_def)
        then show ?thesis using one by simp
      next
        case False
        then have "snd (run_cases env m pp ti err (n # ns))
                     = n # snd (run_cases env m pp ti ?error1 ns)"
          using Inr c fw by (simp add: Let_def split: prod.splits)
        then show ?thesis using more by simp
      qed
    qed
  qed
qed

lemma run_cases_None_iff:
  "(fst (run_cases env m pp ti None ns) = Inr None) = (\<forall>n \<in> set ns. case_ok env m pp ti n)"
proof
  assume none: "fst (run_cases env m pp ti None ns) = Inr None"
  show "\<forall>n \<in> set ns. case_ok env m pp ti n"
  proof (rule ccontr)
    assume "\<not> (\<forall>n \<in> set ns. case_ok env m pp ti n)"
    then have "\<exists>n \<in> set ns. \<not> case_ok env m pp ti n" by blast
    then obtain before n rest where
      ns: "ns = before @ n # rest" and bad: "\<not> case_ok env m pp ti n" and
      good: "\<forall>j \<in> set before. \<not> \<not> case_ok env m pp ti j"
      using split_list_first_prop [of ns "\<lambda>n. \<not> case_ok env m pp ti n"] by blast
    from good have "\<forall>j \<in> set before. case_ok env m pp ti j" by blast
    from run_cases_stop [OF this bad, of rest] none ns show False by simp
  qed
next
  assume "\<forall>n \<in> set ns. case_ok env m pp ti n"
  then show "fst (run_cases env m pp ti None ns) = Inr None"
    by (simp add: run_cases_all_ok)
qed

lemma status_passed_iff:
  "(vd_status (reproduce_detail w (error_and_tb x)) = ''passed'') = (x = Inr None)"
  by (cases x) (auto simp add: reproduce_detail_def)

lemma status_failed_iff:
  "(vd_status (reproduce_detail w (error_and_tb x)) = ''failed'') = (x \<noteq> Inr None)"
  by (cases x) (auto simp add: reproduce_detail_def)

lemma leave_None_iff: "(leave pp r = Inr None) = (pp_exit pp = None \<and> r = Inr None)"
  by (cases "pp_exit pp") (simp_all add: leave_def)

lemma parametrized_try_block_created:
  assumes "load_test_inputs env (V0_5 m) = Inr ti"
    and "create_prediction_pipeline env (V0_5 m) devices wfmt = Inr pp"
  shows "parametrized_try_block env m wfmt devices =
           (leave pp (fst (run_cases env m pp ti None [0, 1, 2, 3])),
            snd (run_cases env m pp ti None [0, 1, 2, 3]))"
  using assms by (simp add: parametrized_try_block_def split: prod.splits del: run_cases.simps)

lemma parametrized_forwarded_prefix:
  "\<exists>k. snd (parametrized_try_block env m wfmt devices) = take k [0, 1, 2, 3]"
proof (cases "load_test_inputs env (V0_5 m)")
  case (Inl e)
  then have "snd (parametrized_try_block env m wfmt devices) = take 0 [0, 1, 2, 3]"
    by (simp add: parametrized_try_block_def)
  then show ?thesis by blast
next
  case ti: (Inr ti)
  show ?thesis
  proof (cases "create_prediction_pipeline env (V0_5 m) devices wfmt")
    case (Inl e)
    then have "snd (parametrized_try_block env m wfmt devices) = take 0 [0, 1, 2, 3]"
      using ti by (simp add: parametrized_try_block_def)
    then show ?thesis by blast
  next
    case (Inr pp)
    show ?thesis
      using run_cases_prefix [of env m pp ti None "[0, 1, 2, 3]"]
      by (simp add: parametrized_try_block_created [OF ti Inr] del: run_cases.simps)
  qed
qed

lemma four_cases_split:
  assumes "i < 4"
  shows "[0, 1, 2, 3] = [0..<i] @ i # [Suc i..<4]"
proof -
  have "[0, 1, 2, 3] = [0..<4]" by (simp add: upt_rec)
  also have "\<dots> = [0..<i] @ [i..<4]"
    using assms upt_add_eq_append [of 0 i "4 - i"] by simp
  also have "[i..<4] = i # [Suc i..<4]" using assms by (simp add: upt_conv_Cons)
  finally show ?thesis .
qed

text \<open>
  A pipeline that returns two outputs where one is expected: the case for \<open>n = 0\<close>
  is given to \<^verbatim>\<open>forward\<close> and records the mismatch; the cases for 1, 2 and 3, which
  the generator would build, are never given to \<^verbatim>\<open>forward\<close>.
\<close>

theorem parametrized_inputs_test_counterexample:
  "has_parameterized_input example_v5_model \<and>
   test_case example_two_output_env example_v5_model [example_tensor] 1 =
     Inr ([Tensor (NDArray [1, 4] []) [''b'', ''x'']], [[1, 4]]) \<and>
   parametrized_try_block example_two_output_env example_v5_model None None =
     (Inr (Some ''Expected 1 outputs, but got 2''), [0]) \<and>
   1 \<notin> set (snd (parametrized_try_block example_two_output_env example_v5_model None None))"
  by (simp add: example_test_env_def example_two_output_env_def example_v5_model_def
      example_two_output_pipeline_def parametrized_try_block_def load_test_inputs_def
      load_v5_tensor_def leave_def has_parameterized_input_def count_mismatch_msg_def
      digit_char_def Let_def)

text \<open>
  C7 (amended). For a v0.5 model without an input axis of parameterized size the test adds
  nothing. With one, it adds one detail: it loads the test inputs, creates one prediction
  pipeline and gives the cases for \<open>n = 0, 1, 2, 3\<close> to \<^verbatim>\<open>forward\<close> in this order,
  stopping after the first case that raises or whose outputs differ from the expected
  ones in number or in shape. The detail is \<^verbatim>\<open>passed\<close> exactly when all four cases
  are generated, \<^verbatim>\<open>forward\<close> returns for each, the shapes of the results are the
  expected shapes one for one, and leaving the pipeline's scope does not raise; otherwise it
  is \<^verbatim>\<open>failed\<close>. The values of the outputs play no part.
\<close>

theorem parametrized_inputs_test:
  assumes detail: "detail = reproduce_detail wfmt
                      (error_and_tb (fst (parametrized_try_block env m wfmt devices)))"
    and forwarded: "forwarded = snd (parametrized_try_block env m wfmt devices)"
  shows "(\<not> has_parameterized_input m \<longrightarrow>
            test_model_inference_with_parametrized_inputs env m wfmt devices summary = summary) \<and>
         (has_parameterized_input m \<longrightarrow>
            test_model_inference_with_parametrized_inputs env m wfmt devices summary
              = add_detail summary detail) \<and>
         (\<exists>k. forwarded = take k [0, 1, 2, 3]) \<and>
         (vd_status detail = ''passed'' \<or> vd_status detail = ''failed'') \<and>
         (\<forall>e. load_test_inputs env (V0_5 m) = Inl e \<longrightarrow>
            forwarded = [] \<and> vd_status detail = ''failed'') \<and>
         (\<forall>e ti. load_test_inputs env (V0_5 m) = Inr ti \<and>
                 create_prediction_pipeline env (V0_5 m) devices wfmt = Inl e \<longrightarrow>
            forwarded = [] \<and> vd_status detail = ''failed'') \<and>
         (\<forall>ti pp. load_test_inputs env (V0_5 m) = Inr ti \<and>
                  create_prediction_pipeline env (V0_5 m) devices wfmt = Inr pp \<longrightarrow>
            (vd_status detail = ''passed'')
              = ((\<forall>n \<in> {0, 1, 2, 3}. case_ok env m pp ti n) \<and> pp_exit pp = None) \<and>
            ((\<forall>n \<in> {0, 1, 2, 3}. case_ok env m pp ti n) \<longrightarrow> forwarded = [0, 1, 2, 3]) \<and>
            (\<forall>i < 4. (\<forall>j < i. case_ok env m pp ti j) \<and> \<not> case_ok env m pp ti i \<longrightarrow>
               forwarded = [0..<i] @ (if isl (test_case env m ti i) then [] else [i])))"
proof -
  let ?P = "parametrized_try_block env m wfmt devices"
  have a: "\<not> has_parameterized_input m \<longrightarrow>
            test_model_inference_with_parametrized_inputs env m wfmt devices summary = summary"
    by (simp add: test_model_inference_with_parametrized_inputs_def)
  have b: "has_parameterized_input m \<longrightarrow>
            test_model_inference_with_parametrized_inputs env m wfmt devices summary
              = add_detail summary detail"
    by (simp add: test_model_inference_with_parametrized_inputs_def detail)
  have c: "\<exists>k. forwarded = take k [0, 1, 2, 3]"
    unfolding forwarded by (rule parametrized_forwarded_prefix)
  have d: "vd_status detail = ''passed'' \<or> vd_status detail = ''failed''"
    unfolding detail by (simp add: status_passed_iff status_failed_iff)
  have e: "\<forall>e. load_test_inputs env (V0_5 m) = Inl e \<longrightarrow>
            forwarded = [] \<and> vd_status detail = ''failed''"
    by (auto simp add: forwarded detail parametrized_try_block_def reproduce_detail_def)
  have f: "\<forall>e ti. load_test_inputs env (V0_5 m) = Inr ti \<and>
                 create_prediction_pipeline env (V0_5 m) devices wfmt = Inl e \<longrightarrow>
            forwarded = [] \<and> vd_status detail = ''failed''"
    by (auto simp add: forwarded detail parametrized_try_block_def reproduce_detail_def)
  have g: "(vd_status detail = ''passed'')
              = ((\<forall>n \<in> {0, 1, 2, 3}. case_ok env m pp ti n) \<and> pp_exit pp = None) \<and>
            ((\<forall>n \<in> {0, 1, 2, 3}. case_ok env m pp ti n) \<longrightarrow> forwarded = [0, 1, 2, 3]) \<and>
            (\<forall>i < 4. (\<forall>j < i. case_ok env m pp ti j) \<and> \<not> case_ok env m pp ti i \<longrightarrow>
               forwarded = [0..<i] @ (if isl (test_case env m ti i) then [] else [i]))"
    if ti: "load_test_inputs env (V0_5 m) = Inr ti"
      and pp: "create_prediction_pipeline env (V0_5 m) devices wfmt = Inr pp" for ti pp
  proof -
    let ?R = "run_cases env m pp ti None [0, 1, 2, 3]"
    have P: "?P = (leave pp (fst ?R), snd ?R)"
      using ti pp by (rule parametrized_try_block_created)
    have all: "(fst ?R = Inr None) = (\<forall>n \<in> {0, 1, 2, 3}. case_ok env m pp ti n)"
      using run_cases_None_iff [of env m pp ti "[0, 1, 2, 3]"] by simp
    have g1: "(vd_status detail = ''passed'')
              = ((\<forall>n \<in> {0, 1, 2, 3}. case_ok env m pp ti n) \<and> pp_exit pp = None)"
      unfolding detail status_passed_iff P using all
      by (auto simp add: leave_None_iff simp del: run_cases.simps)
    have g2: "(\<forall>n \<in> {0, 1, 2, 3}. case_ok env m pp ti n) \<longrightarrow> forwarded = [0, 1, 2, 3]"
    proof
      assume "\<forall>n \<in> {0, 1, 2, 3}. case_ok env m pp ti n"
      then have "\<forall>n \<in> set [0, 1, 2, 3]. case_ok env m pp ti n" by simp
      then have "?R = (Inr None, [0, 1, 2, 3])" by (rule run_cases_all_ok)
      then show "forwarded = [0, 1, 2, 3]" unfolding forwarded P by simp
    qed
    have g3: "\<forall>i < 4. (\<forall>j < i. case_ok env m pp ti j) \<and> \<not> case_ok env m pp ti i \<longrightarrow>
               forwarded = [0..<i] @ (if isl (test_case env m ti i) then [] else [i])"
    proof (intro allI impI)
      fix i :: nat
      assume i: "i < 4" and h: "(\<forall>j < i. case_ok env m pp ti j) \<and> \<not> case_ok env m pp ti i"
      from h have before: "\<forall>j \<in> set [0..<i]. case_ok env m pp ti j" by simp
      from h have bad: "\<not> case_ok env m pp ti i" by simp
      have "snd (run_cases env m pp ti None ([0..<i] @ i # [Suc i..<4]))
              = [0..<i] @ (if isl (test_case env m ti i) then [] else [i])"
        using run_cases_stop [OF before bad] by blast
      then have "snd ?R = [0..<i] @ (if isl (test_case env m ti i) then [] else [i])"
        using four_cases_split [OF i] by simp
      then show "forwarded = [0..<i] @ (if isl (test_case env m ti i) then [] else [i])"
        unfolding forwarded P by simp
    qed
    from g1 g2 g3 show ?thesis by blast
  qed
  from a b c d e f g show ?thesis by blast
qed

text \<open>A pipeline that returns its inputs, with cases whose inputs have the expected shapes.\<close>

theorem parametrized_inputs_test_witness:
  "has_parameterized_input example_v5_model \<and>
   load_test_inputs example_test_env (V0_5 example_v5_model) = Inr [example_tensor] \<and>
   create_prediction_pipeline example_test_env (V0_5 example_v5_model) None None = Inr example_pipeline \<and>
   case_ok example_test_env example_v5_model example_pipeline [example_tensor] 0 \<and>
   case_ok example_test_env example_v5_model example_pipeline [example_tensor] 1 \<and>
   case_ok example_test_env example_v5_model example_pipeline [example_tensor] 2 \<and>
   case_ok example_test_env example_v5_model example_pipeline [example_tensor] 3 \<and>
   snd (parametrized_try_block example_test_env example_v5_model None None) = [0, 1, 2, 3] \<and>
   test_model_inference_with_parametrized_inputs example_test_env example_v5_model None None
       \<lparr>vs_details = [], vs_env = []\<rparr> =
     \<lparr>vs_details = [\<lparr>vd_name = ''Reproduce test outputs from test inputs'', vd_status = ''passed'',
                      vd_errors = []\<rparr>],
      vs_env = []\<rparr>"
  using parametrized_inputs_test [of
      "reproduce_detail None (error_and_tb (fst (parametrized_try_block example_test_env example_v5_model None None)))"
      None example_test_env example_v5_model None
      "snd (parametrized_try_block example_test_env example_v5_model None None)"
      "\<lparr>vs_details = [], vs_env = []\<rparr>"]
  by (simp add: example_test_env_def example_v5_model_def example_tensor_def
      example_pipeline_def parametrized_try_block_def load_test_inputs_def
      load_v5_tensor_def leave_def has_parameterized_input_def count_mismatch_msg_def
      digit_char_def Let_def case_ok_def reproduce_detail_def add_detail_def
      test_model_inference_with_parametrized_inputs_def)

end
